theory Spec2Isabelle
  imports Main "HOL-Library.Sublist" "HOL-Library.Product_Lexorder"
begin

section \<open>The INTERACTION track data API (track\_api.py)\<close>

text \<open>
  The module reads one CSV file of motion states into a pandas data frame, derives two
  per-case indices (tracks to predict, interesting agents) and serves cases on demand.
  Rows of a data frame are a list in file order; a Python dict is an association list in
  insertion order, read with \<open>map_of\<close>; every exception is a value of \<open>error\<close>.
\<close>

subsection \<open>Errors and the containers of tracks/\<close>

datatype error =
    ValueError | AssertionError | KeyError | AttributeError | IndexError
  | DecodingError | FileError

text \<open>
  Modelled from the spec: the agent-type enumeration of tracks/typing.py, which is not
  among the sources. The spec names the members car and pedestrian/bicycle; no proof below
  depends on the enumeration having no further member.
\<close>

datatype AgentType = CAR | PEDESTRIAN_BICYCLE

text \<open>
  A cell of the \<open>agent_type\<close> column: the string read from the file, or the member that
  \<open>AgentType.deserialize\<close> put in its place. \<open>deserialize\<close> itself lives in
  tracks/typing.py and is a parameter of every function that calls it; \<open>None\<close> is its
  decoding error.
\<close>

datatype agent_cell = Raw string | Member AgentType

text \<open>
  One row of the CSV file. \<open>kinematics\<close> stands for the columns that
  \<open>MOTION_STATE_FIELD_MAPPING\<close> (tracks/container.py) copies into a motion state next to
  the timestamp: x, y, the velocities, heading and size. The two flag columns exist in
  test-split files only and are read in the test branch only.
\<close>

record 'k row =
  case_id :: int
  track_id :: int
  timestamp_ms :: int
  agent_type :: agent_cell
  kinematics :: 'k
  tracks_to_predict :: int
  interesting_agent :: int

text \<open>
  Modelled from the spec: the containers MotionState, Track and INTERACTIONCase of
  tracks/container.py, as plain records of the fields the API passes to them.
\<close>

record 'k MotionState =
  ms_agent_id :: int
  ms_timestamp_ms :: int
  ms_kinematics :: 'k

record 'k Track =
  tr_agent_id :: int
  tr_type :: AgentType
  tr_motion_states :: "'k MotionState list"

record 'k INTERACTIONCase =
  c_location :: string
  c_case_id :: int
  history_tracks :: "'k Track list"
  current_tracks :: "'k Track list"
  futural_tracks :: "'k Track list"
  c_tracks_to_predict :: "int list"
  c_interesting_agents :: "int list"

subsection \<open>The pandas operations the module uses\<close>

text \<open>\<open>Series.unique\<close>: the distinct values in order of first appearance.\<close>

definition unique :: "'a list \<Rightarrow> 'a list" where
  "unique xs = rev (remdups (rev xs))"

text \<open>
  \<open>groupby(key).agg(f)\<close>: one entry per distinct key, keys sorted, the aggregate taken
  over the rows of the group in frame order.
\<close>

definition groupby_agg :: "('r \<Rightarrow> 'key::linorder) \<Rightarrow> ('r list \<Rightarrow> 'v) \<Rightarrow> 'r list \<Rightarrow> ('key \<times> 'v) list" where
  "groupby_agg key f rows =
     map (\<lambda>k. (k, f (filter (\<lambda>r. key r = k) rows))) (sort (remdups (map key rows)))"

fun agg_min :: "int list \<Rightarrow> int option" where
  "agg_min [] = None"
| "agg_min (x # xs) = Some (fold min xs x)"

fun agg_max :: "int list \<Rightarrow> int option" where
  "agg_max [] = None"
| "agg_max (x # xs) = Some (fold max xs x)"

fun agg_first :: "'a list \<Rightarrow> 'a option" where
  "agg_first [] = None"
| "agg_first (x # xs) = Some x"

text \<open>
  The objects that the chains of \<open>to_dict\<close> and \<open>[...]\<close> pass through, with values of
  the one type they hold here (lists of track ids, per case id): a data frame and the dict
  of dicts that \<open>DataFrame.to_dict()\<close> makes of it, a series and the dict that
  \<open>Series.to_dict()\<close> makes of it. A dict has no method \<open>to_dict\<close>.
\<close>

datatype pd_obj =
    DataFrame "(string \<times> (int \<times> int list) list) list"
  | Series "(int \<times> int list) list"
  | PyDictOfDicts "(string \<times> (int \<times> int list) list) list"
  | PyDict "(int \<times> int list) list"

fun to_dict :: "pd_obj \<Rightarrow> error + pd_obj" where
  "to_dict (DataFrame cols) = Inr (PyDictOfDicts cols)"
| "to_dict (Series kv) = Inr (PyDict kv)"
| "to_dict (PyDictOfDicts cols) = Inl AttributeError"
| "to_dict (PyDict kv) = Inl AttributeError"

text \<open>Subscription with a column name, and with a case id.\<close>

fun getitem_str :: "pd_obj \<Rightarrow> string \<Rightarrow> error + pd_obj" where
  "getitem_str (DataFrame cols) c =
     (case map_of cols c of None \<Rightarrow> Inl KeyError | Some kv \<Rightarrow> Inr (Series kv))"
| "getitem_str (PyDictOfDicts cols) c =
     (case map_of cols c of None \<Rightarrow> Inl KeyError | Some kv \<Rightarrow> Inr (PyDict kv))"
| "getitem_str (Series kv) c = Inl KeyError"
| "getitem_str (PyDict kv) c = Inl KeyError"

fun getitem_int :: "pd_obj \<Rightarrow> int \<Rightarrow> error + int list" where
  "getitem_int (PyDict kv) i =
     (case map_of kv i of None \<Rightarrow> Inl KeyError | Some v \<Rightarrow> Inr v)"
| "getitem_int (Series kv) i =
     (case map_of kv i of None \<Rightarrow> Inl KeyError | Some v \<Rightarrow> Inr v)"
| "getitem_int (DataFrame cols) i = Inl KeyError"
| "getitem_int (PyDictOfDicts cols) i = Inl KeyError"

text \<open>
  \<open>df.loc[case_id]\<close> on the frame indexed by (case\_id, track\_id): the rows of the case
  in frame order, a key error when there is none.
\<close>

definition loc :: "'k row list \<Rightarrow> int \<Rightarrow> error + 'k row list" where
  "loc df c =
     (let sub = filter (\<lambda>r. case_id r = c) df
      in if sub = [] then Inl KeyError else Inr sub)"

subsection \<open>get\_tracks\_from\_frame\<close>

text \<open>
  \<open>track_dict\<close> is a \<open>defaultdict(list)\<close>: appending under a new key adds the key at the
  end. \<open>track_type[track_id] = ...\<close> is a plain dict assignment: it overwrites.
\<close>

fun dict_append :: "('a \<times> 'v list) list \<Rightarrow> 'a \<Rightarrow> 'v \<Rightarrow> ('a \<times> 'v list) list" where
  "dict_append [] k v = [(k, [v])]"
| "dict_append ((k', vs) # d) k v =
     (if k' = k then (k', vs @ [v]) # d else (k', vs) # dict_append d k v)"

fun dict_set :: "('a \<times> 'v) list \<Rightarrow> 'a \<Rightarrow> 'v \<Rightarrow> ('a \<times> 'v) list" where
  "dict_set [] k v = [(k, v)]"
| "dict_set ((k', v') # d) k v =
     (if k' = k then (k', v) # d else (k', v') # dict_set d k v)"

definition motion_state :: "'k row \<Rightarrow> 'k MotionState" where
  "motion_state r =
     \<lparr>ms_agent_id = track_id r, ms_timestamp_ms = timestamp_ms r, ms_kinematics = kinematics r\<rparr>"

fun tracks_loop ::
  "(agent_cell \<Rightarrow> AgentType option) \<Rightarrow> 'k row list \<Rightarrow>
   (int \<times> 'k MotionState list) list \<Rightarrow> (int \<times> AgentType) list \<Rightarrow>
   error + ((int \<times> 'k MotionState list) list \<times> (int \<times> AgentType) list)" where
  "tracks_loop deserialize [] track_dict track_type = Inr (track_dict, track_type)"
| "tracks_loop deserialize (r # rs) track_dict track_type =
     (case deserialize (agent_type r) of
        None \<Rightarrow> Inl DecodingError
      | Some ty \<Rightarrow>
          tracks_loop deserialize rs
            (dict_append track_dict (track_id r) (motion_state r))
            (dict_set track_type (track_id r) ty))"

fun build_tracks ::
  "(int \<times> AgentType) list \<Rightarrow> (int \<times> 'k MotionState list) list \<Rightarrow> error + 'k Track list" where
  "build_tracks track_type [] = Inr []"
| "build_tracks track_type ((key, val) # items) =
     (case map_of track_type key of
        None \<Rightarrow> Inl KeyError
      | Some ty \<Rightarrow>
          (case build_tracks track_type items of
             Inl e \<Rightarrow> Inl e
           | Inr ts \<Rightarrow> Inr (\<lparr>tr_agent_id = key, tr_type = ty, tr_motion_states = val\<rparr> # ts)))"

definition get_tracks_from_frame ::
  "(agent_cell \<Rightarrow> AgentType option) \<Rightarrow> 'k row list \<Rightarrow> error + 'k Track list" where
  "get_tracks_from_frame deserialize frame =
     (case tracks_loop deserialize frame [] [] of
        Inl e \<Rightarrow> Inl e
      | Inr (track_dict, track_type) \<Rightarrow> build_tracks track_type track_dict)"

subsection \<open>The scenario\<close>

text \<open>
  The slots of \<open>INTERACTIONScenario\<close>. The root is the tuple \<open>Path(root).resolve().parts\<close>.
  \<open>slot_frames\<close> is the MOTION\_STATE layer; the TRACK layer is built and never read by
  the accessors below, and is left out.
\<close>

record 'k scenario =
  slot_location :: string
  slot_root :: "string list"
  slot_frames :: "'k row list"
  slot_split :: string
  slot_tracks_to_predict :: pd_obj
  slot_interesting_agents :: pd_obj
  slot_num_cases :: nat

text \<open>Lines 65 to 81 of \<open>__init__\<close>: the split, given or read off the last part of the root.\<close>

definition resolve_split :: "string list \<Rightarrow> string option \<Rightarrow> error + string" where
  "resolve_split root split =
     (case (case split of
              Some s \<Rightarrow> Inr s
            | None \<Rightarrow>
                (if root = [] then Inl IndexError
                 else let seg = last root
                      in if sublist ''train'' seg then Inr ''train''
                         else if sublist ''val'' seg then Inr ''val''
                         else if sublist ''test'' seg then Inr ''test''
                         else Inl ValueError)) of
        Inl e \<Rightarrow> Inl e
      | Inr s \<Rightarrow> if s \<in> set [''train'', ''val'', ''test''] then Inr s else Inl AssertionError)"

text \<open>
  The property \<open>track_file\<close>, as a function of the three slots it reads. \<open>joinpath\<close>
  stands for \<open>str(Path(root).joinpath(filename))\<close> of pathlib.
\<close>

definition track_file_name :: "string \<Rightarrow> string \<Rightarrow> string" where
  "track_file_name location split =
     (if split = ''test'' then location @ ''_obs.csv''
      else location @ ''_'' @ split @ ''.csv'')"

definition track_file_of ::
  "(string list \<Rightarrow> string \<Rightarrow> string) \<Rightarrow> string list \<Rightarrow> string \<Rightarrow> string \<Rightarrow> string" where
  "track_file_of joinpath root location split = joinpath root (track_file_name location split)"

definition track_file :: "(string list \<Rightarrow> string \<Rightarrow> string) \<Rightarrow> 'k scenario \<Rightarrow> string" where
  "track_file joinpath sc = track_file_of joinpath (slot_root sc) (slot_location sc) (slot_split sc)"

definition num_cases :: "'k scenario \<Rightarrow> nat" where
  "num_cases sc = slot_num_cases sc"

definition location :: "'k scenario \<Rightarrow> string" where
  "location sc = slot_location sc"

text \<open>\<open>motion_state_df["agent_type"].apply(AgentType.deserialize)\<close>.\<close>

fun apply_deserialize ::
  "(agent_cell \<Rightarrow> AgentType option) \<Rightarrow> 'k row list \<Rightarrow> error + 'k row list" where
  "apply_deserialize deserialize [] = Inr []"
| "apply_deserialize deserialize (r # rs) =
     (case deserialize (agent_type r) of
        None \<Rightarrow> Inl DecodingError
      | Some ty \<Rightarrow>
          (case apply_deserialize deserialize rs of
             Inl e \<Rightarrow> Inl e
           | Inr rs' \<Rightarrow> Inr (r\<lparr>agent_type := Member ty\<rparr> # rs')))"

text \<open>
  The test branch of \<open>_init_scenario\<close>: the rows with the flag set, grouped by case, the
  distinct track ids of each group, and then \<open>.to_dict()["track_id"].to_dict()\<close>.
\<close>

definition flagged_index :: "('k row \<Rightarrow> int) \<Rightarrow> 'k row list \<Rightarrow> error + pd_obj" where
  "flagged_index flag df =
     (let flagged = filter (\<lambda>r. flag r = 1) df;
          agg = DataFrame [(''track_id'',
                  groupby_agg case_id (\<lambda>g. unique (map track_id g)) flagged)]
      in case to_dict agg of
           Inl e \<Rightarrow> Inl e
         | Inr d \<Rightarrow>
             (case getitem_str d ''track_id'' of
                Inl e \<Rightarrow> Inl e
              | Inr d' \<Rightarrow> to_dict d'))"

text \<open>
  The train/val branch: one summary per (case\_id, track\_id) group, the groups that start
  at 100, end at 4000 and are cars, regrouped by case with the track ids listed, and then
  \<open>["track_id"].to_dict()\<close>. The frame of lists keeps its integer columns here.
  The cells of the \<open>agent_type\<close> column are members by now, and the comparison with
  \<open>AgentType.CAR.value\<close> is read as the spec reads it, agent type == CAR: members of
  the enumeration compare by value, and only CAR has the value of CAR.
\<close>

definition track_summaries ::
  "'k row list \<Rightarrow> ((int \<times> int) \<times> (int option \<times> int option \<times> agent_cell option)) list" where
  "track_summaries df =
     groupby_agg (\<lambda>r. (case_id r, track_id r))
       (\<lambda>g. (agg_min (map timestamp_ms g), agg_max (map timestamp_ms g),
             agg_first (map agent_type g))) df"

definition selected_tracks ::
  "'k row list \<Rightarrow> ((int \<times> int) \<times> (int option \<times> int option \<times> agent_cell option)) list" where
  "selected_tracks df =
     filter (\<lambda>(k, (mn, mx, ty)). mn = Some 100 \<and> mx = Some 4000 \<and> ty = Some (Member CAR))
       (track_summaries df)"

definition trainval_index :: "'k row list \<Rightarrow> error + pd_obj" where
  "trainval_index df =
     (let sel = selected_tracks df;
          agg = DataFrame
                 [(''track_id'', groupby_agg (\<lambda>(k, s). fst k) (map (\<lambda>(k, s). snd k)) sel),
                  (''min_timestamp'',
                     groupby_agg (\<lambda>(k, s). fst k) (map (\<lambda>(k, (mn, mx, ty)). the mn)) sel),
                  (''max_timestamp'',
                     groupby_agg (\<lambda>(k, s). fst k) (map (\<lambda>(k, (mn, mx, ty)). the mx)) sel)]
      in case getitem_str agg ''track_id'' of
           Inl e \<Rightarrow> Inl e
         | Inr s \<Rightarrow> to_dict s)"

definition init_scenario ::
  "(string \<Rightarrow> error + 'k row list) \<Rightarrow> (string list \<Rightarrow> string \<Rightarrow> string) \<Rightarrow>
   (agent_cell \<Rightarrow> AgentType option) \<Rightarrow> string list \<Rightarrow> string \<Rightarrow> string \<Rightarrow>
   error + 'k scenario" where
  "init_scenario read_csv joinpath deserialize root loc_name split =
     (case read_csv (track_file_of joinpath root loc_name split) of
        Inl e \<Rightarrow> Inl e
      | Inr rows \<Rightarrow>
     (case apply_deserialize deserialize rows of
        Inl e \<Rightarrow> Inl e
      | Inr df \<Rightarrow>
     (case (if split = ''test''
            then (case flagged_index tracks_to_predict df of
                    Inl e \<Rightarrow> Inl e
                  | Inr ttp \<Rightarrow>
                      (case flagged_index interesting_agent df of
                         Inl e \<Rightarrow> Inl e
                       | Inr ia \<Rightarrow> Inr (ttp, ia)))
            else (case trainval_index df of
                    Inl e \<Rightarrow> Inl e
                  | Inr ttp \<Rightarrow>
                      Inr (ttp, PyDict (map (\<lambda>c. (c, [])) (unique (map case_id df)))))) of
        Inl e \<Rightarrow> Inl e
      | Inr (ttp, ia) \<Rightarrow>
          Inr \<lparr>slot_location = loc_name, slot_root = root, slot_frames = df,
               slot_split = split, slot_tracks_to_predict = ttp,
               slot_interesting_agents = ia,
               slot_num_cases = length (unique (map case_id df))\<rparr>)))"

text \<open>\<open>__init__\<close>.\<close>

definition INTERACTIONScenario ::
  "(string \<Rightarrow> error + 'k row list) \<Rightarrow> (string list \<Rightarrow> string \<Rightarrow> string) \<Rightarrow>
   (agent_cell \<Rightarrow> AgentType option) \<Rightarrow> string list \<Rightarrow> string \<Rightarrow> string option \<Rightarrow>
   error + 'k scenario" where
  "INTERACTIONScenario read_csv joinpath deserialize root loc_name split =
     (case resolve_split root split of
        Inl e \<Rightarrow> Inl e
      | Inr s \<Rightarrow> init_scenario read_csv joinpath deserialize root loc_name s)"

subsection \<open>Cases\<close>

definition get_history :: "'k scenario \<Rightarrow> int \<Rightarrow> error + 'k row list" where
  "get_history sc c =
     (case loc (slot_frames sc) c of
        Inl e \<Rightarrow> Inl e
      | Inr df \<Rightarrow> Inr (filter (\<lambda>r. timestamp_ms r \<le> 1000) df))"

definition get_current :: "'k scenario \<Rightarrow> int \<Rightarrow> error + 'k row list" where
  "get_current sc c =
     (case loc (slot_frames sc) c of
        Inl e \<Rightarrow> Inl e
      | Inr df \<Rightarrow> Inr (filter (\<lambda>r. timestamp_ms r = 1000) df))"

definition get_futural :: "'k scenario \<Rightarrow> int \<Rightarrow> error + 'k row list" where
  "get_futural sc c =
     (case loc (slot_frames sc) c of
        Inl e \<Rightarrow> Inl e
      | Inr df \<Rightarrow> Inr (filter (\<lambda>r. timestamp_ms r > 1000) df))"

definition tracks_of ::
  "(agent_cell \<Rightarrow> AgentType option) \<Rightarrow> error + 'k row list \<Rightarrow> error + 'k Track list" where
  "tracks_of deserialize window =
     (case window of Inl e \<Rightarrow> Inl e | Inr frame \<Rightarrow> get_tracks_from_frame deserialize frame)"

definition get_case ::
  "(agent_cell \<Rightarrow> AgentType option) \<Rightarrow> 'k scenario \<Rightarrow> int \<Rightarrow> error + 'k INTERACTIONCase" where
  "get_case deserialize sc c =
     (case tracks_of deserialize (get_history sc c) of
        Inl e \<Rightarrow> Inl e
      | Inr history \<Rightarrow>
     (case tracks_of deserialize (get_current sc c) of
        Inl e \<Rightarrow> Inl e
      | Inr current \<Rightarrow>
     (case tracks_of deserialize (get_futural sc c) of
        Inl e \<Rightarrow> Inl e
      | Inr futural \<Rightarrow>
     (case getitem_int (slot_tracks_to_predict sc) c of
        Inl e \<Rightarrow> Inl e
      | Inr ttp \<Rightarrow>
     (case getitem_int (slot_interesting_agents sc) c of
        Inl e \<Rightarrow> Inl e
      | Inr ia \<Rightarrow>
          Inr \<lparr>c_location = slot_location sc, c_case_id = c,
               history_tracks = history, current_tracks = current,
               futural_tracks = futural, c_tracks_to_predict = ttp,
               c_interesting_agents = ia\<rparr>)))))"

text \<open>
  \<open>render\<close>: the guard on the case id, then the case that is drawn. The drawing itself
  (matplotlib) is not modelled.
\<close>

definition render ::
  "(agent_cell \<Rightarrow> AgentType option) \<Rightarrow> 'k scenario \<Rightarrow> int \<Rightarrow> error + 'k INTERACTIONCase" where
  "render deserialize sc c =
     (if c \<ge> int (slot_num_cases sc) then Inl ValueError else get_case deserialize sc c)"

text \<open>\<open>__getitem__\<close> and \<open>__len__\<close>.\<close>

definition getitem_scenario ::
  "(agent_cell \<Rightarrow> AgentType option) \<Rightarrow> 'k scenario \<Rightarrow> int \<Rightarrow> error + 'k INTERACTIONCase" where
  "getitem_scenario deserialize sc c = get_case deserialize sc c"

definition len_scenario :: "'k scenario \<Rightarrow> nat" where
  "len_scenario sc = num_cases sc"

subsection \<open>Closed form of the track loop, and the invariant of a track\<close>

text \<open>
  What the loop of \<open>get_tracks_from_frame\<close> computes, written without the two dicts:
  the track ids in order of first appearance, each with its rows in frame order and the
  type decoded from its last row. It is proved equal to the loop below.
\<close>

definition tracks_by_key :: "(agent_cell \<Rightarrow> AgentType option) \<Rightarrow> 'k row list \<Rightarrow> 'k Track list" where
  "tracks_by_key deserialize frame =
     map (\<lambda>k. let g = filter (\<lambda>r. track_id r = k) frame
               in \<lparr>tr_agent_id = k, tr_type = the (deserialize (agent_type (last g))),
                   tr_motion_states = map motion_state g\<rparr>)
       (unique (map track_id frame))"

text \<open>The list stored under a key of a \<open>defaultdict(list)\<close>, empty for a new key.\<close>

definition old_states :: "('a \<times> 'v list) list \<Rightarrow> 'a \<Rightarrow> 'v list" where
  "old_states td k = (case map_of td k of None \<Rightarrow> [] | Some vs \<Rightarrow> vs)"

text \<open>
  The invariant of a Track (section 3 of the specification): its motion states carry its
  agent id, and their timestamps increase strictly.
\<close>

definition track_invariant :: "'k Track \<Rightarrow> bool" where
  "track_invariant t \<longleftrightarrow>
     (\<forall>m\<in>set (tr_motion_states t). ms_agent_id m = tr_agent_id t) \<and>
     sorted_wrt (<) (map ms_timestamp_ms (tr_motion_states t))"

subsection \<open>Example data\<close>

text \<open>
  An instance of the parameter \<open>deserialize\<close> and a constructor of rows, for evaluating
  the functions on concrete frames.
\<close>

definition deserialize_example :: "agent_cell \<Rightarrow> AgentType option" where
  "deserialize_example c =
     (case c of
        Raw s \<Rightarrow>
          (if s = ''car'' then Some CAR
           else if s = ''pedestrian/bicycle'' then Some PEDESTRIAN_BICYCLE
           else None)
      | Member ty \<Rightarrow> Some ty)"

definition csv_row :: "int \<Rightarrow> int \<Rightarrow> int \<Rightarrow> agent_cell \<Rightarrow> unit row" where
  "csv_row c t ts ty =
     \<lparr>case_id = c, track_id = t, timestamp_ms = ts, agent_type = ty, kinematics = (),
      tracks_to_predict = 0, interesting_agent = 0\<rparr>"

text \<open>
  A train file of two cases: case 1 holds one pedestrian/bicycle, case 2 a car and a
  pedestrian/bicycle, the rows of each case sorted by timestamp.
\<close>

definition example_csv :: "unit row list" where
  "example_csv =
     [csv_row 1 9 100 (Raw ''pedestrian/bicycle''), csv_row 1 9 4000 (Raw ''pedestrian/bicycle''),
      csv_row 2 5 100 (Raw ''car''), csv_row 2 7 100 (Raw ''pedestrian/bicycle''),
      csv_row 2 5 1000 (Raw ''car''), csv_row 2 7 1000 (Raw ''pedestrian/bicycle''),
      csv_row 2 5 1100 (Raw ''car''), csv_row 2 5 4000 (Raw ''car''),
      csv_row 2 7 4000 (Raw ''pedestrian/bicycle'')]"

definition joinpath_example :: "string list \<Rightarrow> string \<Rightarrow> string" where
  "joinpath_example root f = concat (map (\<lambda>p. if p = ''/'' then p else p @ ''/'') root) @ f"

text \<open>
  A test file of two cases: in case 1 track 5 is flagged to predict and interesting, in
  case 2 track 7 is flagged to predict and no track is interesting.
\<close>

definition example_test_csv :: "unit row list" where
  "example_test_csv =
     [(csv_row 1 5 100 (Raw ''car''))\<lparr>tracks_to_predict := 1, interesting_agent := 1\<rparr>,
      (csv_row 1 5 200 (Raw ''car''))\<lparr>tracks_to_predict := 1, interesting_agent := 1\<rparr>,
      csv_row 1 6 100 (Raw ''car''),
      (csv_row 2 7 100 (Raw ''car''))\<lparr>tracks_to_predict := 1\<rparr>]"

definition read_csv_example :: "string \<Rightarrow> error + unit row list" where
  "read_csv_example path =
     (if path = ''/data/train/EP0_train.csv'' then Inr example_csv
      else if path = ''/data/test/EP0_obs.csv'' then Inr example_test_csv
      else Inl FileError)"

definition example_scenario :: "unit scenario" where
  "example_scenario =
     \<lparr>slot_location = ''EP0'', slot_root = [''/'', ''data'', ''train''],
      slot_frames =
        [csv_row 1 9 100 (Member PEDESTRIAN_BICYCLE), csv_row 1 9 4000 (Member PEDESTRIAN_BICYCLE),
         csv_row 2 5 100 (Member CAR), csv_row 2 7 100 (Member PEDESTRIAN_BICYCLE),
         csv_row 2 5 1000 (Member CAR), csv_row 2 7 1000 (Member PEDESTRIAN_BICYCLE),
         csv_row 2 5 1100 (Member CAR), csv_row 2 5 4000 (Member CAR),
         csv_row 2 7 4000 (Member PEDESTRIAN_BICYCLE)],
      slot_split = ''train'',
      slot_tracks_to_predict = PyDict [(2, [5])],
      slot_interesting_agents = PyDict [(1, []), (2, [])],
      slot_num_cases = 2\<rparr>"

text \<open>
  A qualifying track of the train and val splits: track \<open>t\<close> has rows in case \<open>c\<close>,
  they start at timestamp 100 and end at 4000, and the first of them is a car.
\<close>

definition car_track_100_4000 :: "'k row list \<Rightarrow> int \<Rightarrow> int \<Rightarrow> bool" where
  "car_track_100_4000 df c t \<longleftrightarrow>
     (let g = filter (\<lambda>r. case_id r = c \<and> track_id r = t) df
      in g \<noteq> [] \<and> Min (timestamp_ms ` set g) = 100 \<and> Max (timestamp_ms ` set g) = 4000 \<and>
         agent_type (hd g) = Member CAR)"

text \<open>
  The precondition on a frame under which tracks are ordered: the rows are sorted by
  timestamp, and no track has two rows with the same timestamp.
\<close>

definition timestamp_ordered :: "'k row list \<Rightarrow> bool" where
  "timestamp_ordered frame \<longleftrightarrow>
     sorted (map timestamp_ms frame) \<and>
     distinct (map (\<lambda>r. (track_id r, timestamp_ms r)) frame)"

section \<open>Properties\<close>

subsection \<open>Dicts and unique\<close>

lemma map_fst_dict_append: "map fst (dict_append d k v) = (if k \<in> fst ` set d then map fst d else map fst d @ [k])"
  by (induction d) force+

lemma map_of_dict_append: "map_of (dict_append d k v) = (map_of d)(k \<mapsto> (case map_of d k of None \<Rightarrow> [v] | Some vs \<Rightarrow> vs @ [v]))"
  by (induction d) (auto simp: fun_eq_iff)

lemma map_of_dict_set: "map_of (dict_set d k v) = (map_of d)(k \<mapsto> v)"
  by (induction d) (auto simp: fun_eq_iff)

lemma remdups_drop_later: "k \<in> set ys \<Longrightarrow> remdups (xs @ k # ys) = remdups (xs @ ys)"
  by (induction xs) auto

lemma unique_drop_later: "k \<in> set xs \<Longrightarrow> unique (xs @ k # ys) = unique (xs @ ys)"
  by (simp add: unique_def remdups_drop_later)

lemma unique_distinct: "distinct xs \<Longrightarrow> unique xs = xs"
  by (simp add: unique_def distinct_remdups_id)

lemma set_unique: "set (unique xs) = set xs"
  by (simp add: unique_def)

lemma distinct_unique: "distinct (unique xs)"
  by (simp add: unique_def)

lemma loop_fail:
  "\<exists>r\<in>set rs. d (agent_type r) = None \<Longrightarrow> tracks_loop d rs td tt = Inl DecodingError"
  by (induction rs arbitrary: td tt) (auto split: option.splits)

lemma loop_keys:
  "tracks_loop d rs td tt = Inr (td', tt') \<Longrightarrow> distinct (map fst td) \<Longrightarrow>
   map fst td' = unique (map fst td @ map track_id rs)"
proof (induction rs arbitrary: td tt)
  case Nil
  then show ?case by (simp add: unique_distinct)
next
  case (Cons r rs)
  from Cons.prems(1) obtain ty where ty: "d (agent_type r) = Some ty"
    and rec: "tracks_loop d rs (dict_append td (track_id r) (motion_state r))
                (dict_set tt (track_id r) ty) = Inr (td', tt')"
    by (auto split: option.splits)
  have dist: "distinct (map fst (dict_append td (track_id r) (motion_state r)))"
    using Cons.prems(2) by (auto simp: map_fst_dict_append)
  have "map fst td' = unique (map fst (dict_append td (track_id r) (motion_state r)) @ map track_id rs)"
    by (rule Cons.IH [OF rec dist])
  also have "\<dots> = unique (map fst td @ map track_id (r # rs))"
    by (auto simp: map_fst_dict_append unique_drop_later)
  finally show ?case .
qed

lemma loop_vals:
  "tracks_loop d rs td tt = Inr (td', tt') \<Longrightarrow>
   map_of td' k =
     (if map_of td k \<noteq> None \<or> k \<in> track_id ` set rs
      then Some (old_states td k @ map motion_state (filter (\<lambda>r. track_id r = k) rs))
      else None)"
proof (induction rs arbitrary: td tt)
  case Nil
  then show ?case by (auto simp: old_states_def)
next
  case (Cons r rs)
  from Cons.prems(1) obtain ty where ty: "d (agent_type r) = Some ty"
    and rec: "tracks_loop d rs (dict_append td (track_id r) (motion_state r))
                (dict_set tt (track_id r) ty) = Inr (td', tt')"
    by (auto split: option.splits)
  show ?case
    unfolding Cons.IH [OF rec]
    by (auto simp: map_of_dict_append old_states_def split: option.splits)
qed

lemma loop_types:
  "tracks_loop d rs td tt = Inr (td', tt') \<Longrightarrow>
   map_of tt' k =
     (if k \<in> track_id ` set rs
      then d (agent_type (last (filter (\<lambda>r. track_id r = k) rs)))
      else map_of tt k)"
proof (induction rs arbitrary: td tt)
  case Nil
  then show ?case by auto
next
  case (Cons r rs)
  from Cons.prems(1) obtain ty where ty: "d (agent_type r) = Some ty"
    and rec: "tracks_loop d rs (dict_append td (track_id r) (motion_state r))
                (dict_set tt (track_id r) ty) = Inr (td', tt')"
    by (auto split: option.splits)
  show ?case
    unfolding Cons.IH [OF rec]
    using ty by (auto simp: map_of_dict_set filter_empty_conv)
qed

lemma loop_ok:
  "\<forall>r\<in>set rs. d (agent_type r) \<noteq> None \<Longrightarrow> \<exists>td' tt'. tracks_loop d rs td tt = Inr (td', tt')"
  by (induction rs arbitrary: td tt) auto

lemma build_tracks_ok:
  "\<forall>k\<in>fst ` set td. map_of tt k \<noteq> None \<Longrightarrow>
   build_tracks tt td =
     Inr (map (\<lambda>(k, v). \<lparr>tr_agent_id = k, tr_type = the (map_of tt k), tr_motion_states = v\<rparr>) td)"
  by (induction td) (auto split: option.splits)

lemma alist_by_keys:
  assumes "distinct (map fst td)"
  shows "td = map (\<lambda>k. (k, the (map_of td k))) (map fst td)"
proof -
  have "map ((\<lambda>k. (k, the (map_of td k))) \<circ> fst) td = td"
  proof (rule map_idI)
    fix x assume "x \<in> set td"
    then have "map_of td (fst x) = Some (snd x)"
      using assms by (simp add: map_of_is_SomeI)
    then show "((\<lambda>k. (k, the (map_of td k))) \<circ> fst) x = x" by simp
  qed
  then show ?thesis by simp
qed

lemma get_tracks_from_frame_eq:
  "get_tracks_from_frame d frame =
     (if \<forall>r\<in>set frame. d (agent_type r) \<noteq> None
      then Inr (tracks_by_key d frame) else Inl DecodingError)"
proof (cases "\<forall>r\<in>set frame. d (agent_type r) \<noteq> None")
  case False
  then show ?thesis by (simp add: get_tracks_from_frame_def loop_fail)
next
  case True
  then obtain td tt where loop: "tracks_loop d frame [] [] = Inr (td, tt)"
    using loop_ok by blast
  have keys: "map fst td = unique (map track_id frame)"
    using loop_keys [OF loop] by simp
  have vals: "map_of td k = (if k \<in> track_id ` set frame
      then Some (map motion_state (filter (\<lambda>r. track_id r = k) frame)) else None)" for k
    using loop_vals [OF loop, of k] by (simp add: old_states_def)
  have types: "map_of tt k = (if k \<in> track_id ` set frame
      then d (agent_type (last (filter (\<lambda>r. track_id r = k) frame))) else None)" for k
    using loop_types [OF loop, of k] by simp
  have in_frame: "last (filter (\<lambda>r. track_id r = k) frame) \<in> set frame"
    if "k \<in> track_id ` set frame" for k
  proof -
    from that have ne: "filter (\<lambda>r. track_id r = k) frame \<noteq> []"
      by (auto simp: filter_empty_conv)
    from last_in_set [OF ne] show ?thesis by simp
  qed
  have dom: "\<forall>k\<in>fst ` set td. map_of tt k \<noteq> None"
  proof
    fix k assume "k \<in> fst ` set td"
    then have "k \<in> set (map fst td)" by simp
    then have k: "k \<in> track_id ` set frame" by (simp add: keys set_unique)
    with in_frame [OF k] True show "map_of tt k \<noteq> None" by (simp add: types)
  qed
  have dist: "distinct (map fst td)" by (simp add: keys distinct_unique)
  have td_eq: "td = map (\<lambda>k. (k, map motion_state (filter (\<lambda>r. track_id r = k) frame)))
                  (unique (map track_id frame))"
  proof -
    have "td = map (\<lambda>k. (k, the (map_of td k))) (map fst td)" by (rule alist_by_keys [OF dist])
    also have "\<dots> = map (\<lambda>k. (k, map motion_state (filter (\<lambda>r. track_id r = k) frame)))
                  (unique (map track_id frame))"
      unfolding keys by (rule map_cong) (auto simp: vals set_unique)
    finally show ?thesis .
  qed
  have "map (\<lambda>(k, v). \<lparr>tr_agent_id = k, tr_type = the (map_of tt k), tr_motion_states = v\<rparr>) td
        = tracks_by_key d frame"
    unfolding tracks_by_key_def
    by (subst td_eq) (simp add: comp_def types set_unique Let_def)
  then have "build_tracks tt td = Inr (tracks_by_key d frame)"
    by (simp add: build_tracks_ok [OF dom])
  with loop True show ?thesis by (simp add: get_tracks_from_frame_def)
qed

subsection \<open>Tracks of a frame\<close>

lemma tracks_by_key_ids: "map tr_agent_id (tracks_by_key d frame) = unique (map track_id frame)"
  by (simp add: tracks_by_key_def comp_def Let_def)

lemma tracks_by_key_member:
  assumes "t \<in> set (tracks_by_key d frame)"
  shows "tr_motion_states t = map motion_state (filter (\<lambda>r. track_id r = tr_agent_id t) frame)"
    and "tr_type t = the (d (agent_type (last (filter (\<lambda>r. track_id r = tr_agent_id t) frame))))"
    and "tr_agent_id t \<in> track_id ` set frame"
  using assms by (auto simp: tracks_by_key_def Let_def set_unique)

lemma last_filter_in_set:
  "k \<in> f ` set xs \<Longrightarrow> last (filter (\<lambda>r. f r = k) xs) \<in> set xs"
proof -
  assume "k \<in> f ` set xs"
  then have ne: "filter (\<lambda>r. f r = k) xs \<noteq> []"
    by (auto simp: filter_empty_conv)
  from last_in_set [OF ne] show ?thesis by simp
qed

text \<open>
  C2 (as amended). On a frame whose \<open>agent_type\<close> cells all decode,
  \<open>get_tracks_from_frame\<close> returns one Track per distinct track id, in order of first
  appearance, with the motion states of that id's rows in frame order and with the type
  decoded from the last row of that id: the assignment to \<open>track_type\<close> overwrites.
  On the empty frame it returns the empty list.
\<close>

theorem get_tracks_from_frame_last_type:
  "get_tracks_from_frame deserialize [] = Inr [] \<and>
   ((\<forall>r\<in>set frame. deserialize (agent_type r) \<noteq> None) \<longrightarrow>
    (\<exists>tracks. get_tracks_from_frame deserialize frame = Inr tracks \<and>
       map tr_agent_id tracks = unique (map track_id frame) \<and>
       (\<forall>t\<in>set tracks.
          tr_motion_states t =
            map motion_state (filter (\<lambda>r. track_id r = tr_agent_id t) frame) \<and>
          deserialize (agent_type (last (filter (\<lambda>r. track_id r = tr_agent_id t) frame))) =
            Some (tr_type t))))"
proof (intro conjI impI)
  show "get_tracks_from_frame deserialize [] = Inr []"
    by (simp add: get_tracks_from_frame_def)
next
  assume ok: "\<forall>r\<in>set frame. deserialize (agent_type r) \<noteq> None"
  then have eq: "get_tracks_from_frame deserialize frame = Inr (tracks_by_key deserialize frame)"
    by (simp add: get_tracks_from_frame_eq)
  have "tr_motion_states t = map motion_state (filter (\<lambda>r. track_id r = tr_agent_id t) frame) \<and>
        deserialize (agent_type (last (filter (\<lambda>r. track_id r = tr_agent_id t) frame))) = Some (tr_type t)"
    if t: "t \<in> set (tracks_by_key deserialize frame)" for t
  proof -
    from ok last_filter_in_set [OF tracks_by_key_member(3) [OF t]]
    have "deserialize (agent_type (last (filter (\<lambda>r. track_id r = tr_agent_id t) frame))) \<noteq> None"
      by blast
    then show ?thesis
      using tracks_by_key_member(1,2) [OF t] by auto
  qed
  with eq show "\<exists>tracks. get_tracks_from_frame deserialize frame = Inr tracks \<and>
       map tr_agent_id tracks = unique (map track_id frame) \<and>
       (\<forall>t\<in>set tracks.
          tr_motion_states t =
            map motion_state (filter (\<lambda>r. track_id r = tr_agent_id t) frame) \<and>
          deserialize (agent_type (last (filter (\<lambda>r. track_id r = tr_agent_id t) frame))) =
            Some (tr_type t))"
    by (simp add: tracks_by_key_ids)
qed

theorem get_tracks_from_frame_last_type_witness:
  "\<exists>tracks. get_tracks_from_frame deserialize_example
       [csv_row 1 5 100 (Raw ''car''), csv_row 1 7 100 (Raw ''pedestrian/bicycle''),
        csv_row 1 5 200 (Raw ''car'')] = Inr tracks \<and>
     map tr_agent_id tracks = [5, 7] \<and>
     map (map ms_timestamp_ms \<circ> tr_motion_states) tracks = [[100, 200], [100]] \<and>
     map tr_type tracks = [CAR, PEDESTRIAN_BICYCLE]"
  using get_tracks_from_frame_last_type [of deserialize_example
       "[csv_row 1 5 100 (Raw ''car''), csv_row 1 7 100 (Raw ''pedestrian/bicycle''),
        csv_row 1 5 200 (Raw ''car'')]"]
  by (simp add: get_tracks_from_frame_def deserialize_example_def csv_row_def motion_state_def)

text \<open>
  The type is not the first-seen one: a track whose first row is a car and whose second
  row is a pedestrian/bicycle comes out as a pedestrian/bicycle.
\<close>

theorem get_tracks_from_frame_first_seen_counterexample:
  "get_tracks_from_frame deserialize_example
     [csv_row 1 5 100 (Raw ''car''), csv_row 1 5 200 (Raw ''pedestrian/bicycle'')] =
     Inr [\<lparr>tr_agent_id = 5, tr_type = PEDESTRIAN_BICYCLE,
           tr_motion_states =
             [\<lparr>ms_agent_id = 5, ms_timestamp_ms = 100, ms_kinematics = ()\<rparr>,
              \<lparr>ms_agent_id = 5, ms_timestamp_ms = 200, ms_kinematics = ()\<rparr>]\<rparr>] \<and>
   deserialize_example (agent_type (hd
     [csv_row 1 5 100 (Raw ''car''), csv_row 1 5 200 (Raw ''pedestrian/bicycle'')])) = Some CAR \<and>
   PEDESTRIAN_BICYCLE \<noteq> CAR"
  by (simp add: get_tracks_from_frame_def deserialize_example_def csv_row_def motion_state_def)

subsection \<open>The example scenario\<close>

lemma example_scenario_constructed:
  "INTERACTIONScenario read_csv_example joinpath_example deserialize_example
     [''/'', ''data'', ''train''] ''EP0'' None = Inr example_scenario"
  by (simp add: INTERACTIONScenario_def resolve_split_def sublist_code init_scenario_def
      track_file_of_def track_file_name_def joinpath_example_def read_csv_example_def
      example_csv_def csv_row_def deserialize_example_def trainval_index_def
      selected_tracks_def track_summaries_def groupby_agg_def unique_def example_scenario_def)

subsection \<open>The invariant of a track\<close>

lemma strict_per_track:
  assumes "timestamp_ordered frame"
  shows "sorted_wrt (<) (map timestamp_ms (filter (\<lambda>r. track_id r = k) frame))"
proof -
  let ?g = "filter (\<lambda>r. track_id r = k) frame"
  have "sorted (map timestamp_ms ?g)"
    using assms by (simp add: timestamp_ordered_def sorted_filter)
  moreover have "distinct (map timestamp_ms ?g)"
  proof -
    have "distinct (map (\<lambda>r. (track_id r, timestamp_ms r)) ?g)"
      using assms by (simp add: timestamp_ordered_def distinct_map_filter)
    moreover have "map (\<lambda>r. (track_id r, timestamp_ms r)) ?g = map (Pair k) (map timestamp_ms ?g)"
      by (induction frame) auto
    ultimately have "distinct (map (Pair k) (map timestamp_ms ?g))"
      by (simp only:)
    then show ?thesis
      by (rule distinct_map [THEN iffD1, THEN conjunct1])
  qed
  ultimately show ?thesis by (simp add: strict_sorted_iff)
qed

lemma timestamp_ordered_filter:
  "timestamp_ordered frame \<Longrightarrow> timestamp_ordered (filter P frame)"
  by (simp add: timestamp_ordered_def sorted_filter distinct_map_filter)

lemma tracks_by_key_invariant:
  assumes "timestamp_ordered frame" and "t \<in> set (tracks_by_key d frame)"
  shows "track_invariant t"
proof -
  have ms: "tr_motion_states t = map motion_state (filter (\<lambda>r. track_id r = tr_agent_id t) frame)"
    by (rule tracks_by_key_member(1) [OF assms(2)])
  have "map ms_timestamp_ms (tr_motion_states t) =
        map timestamp_ms (filter (\<lambda>r. track_id r = tr_agent_id t) frame)"
    by (simp add: ms motion_state_def comp_def)
  then have "sorted_wrt (<) (map ms_timestamp_ms (tr_motion_states t))"
    using strict_per_track [OF assms(1)] by simp
  moreover have "\<forall>m\<in>set (tr_motion_states t). ms_agent_id m = tr_agent_id t"
    by (auto simp: ms motion_state_def)
  ultimately show ?thesis by (simp add: track_invariant_def)
qed

lemma get_tracks_from_frame_Inr:
  "get_tracks_from_frame d frame = Inr tracks \<Longrightarrow> tracks = tracks_by_key d frame"
  by (simp add: get_tracks_from_frame_eq split: if_splits)

lemma get_case_Inr:
  assumes "get_case d sc c = Inr cs"
  shows "history_tracks cs =
           tracks_by_key d (filter (\<lambda>r. timestamp_ms r \<le> 1000) (filter (\<lambda>r. case_id r = c) (slot_frames sc)))"
    and "current_tracks cs =
           tracks_by_key d (filter (\<lambda>r. timestamp_ms r = 1000) (filter (\<lambda>r. case_id r = c) (slot_frames sc)))"
    and "futural_tracks cs =
           tracks_by_key d (filter (\<lambda>r. timestamp_ms r > 1000) (filter (\<lambda>r. case_id r = c) (slot_frames sc)))"
    and "getitem_int (slot_tracks_to_predict sc) c = Inr (c_tracks_to_predict cs)"
    and "getitem_int (slot_interesting_agents sc) c = Inr (c_interesting_agents cs)"
    and "filter (\<lambda>r. case_id r = c) (slot_frames sc) \<noteq> []"
  using assms
  by (auto simp: get_case_def tracks_of_def get_history_def get_current_def get_futural_def
      loc_def Let_def dest!: get_tracks_from_frame_Inr split: sum.splits if_splits)

text \<open>
  C8 (as amended). When a frame is sorted by timestamp and no track has two rows with the
  same timestamp, every Track that \<open>get_tracks_from_frame\<close> makes of it satisfies the
  invariant: its motion states carry its agent id and their timestamps increase strictly.
  The same holds for every Track of the three windows of \<open>get_case\<close>, when the rows of
  that case in the MOTION\_STATE layer are so ordered.
\<close>

theorem tracks_satisfy_invariant:
  "(get_tracks_from_frame deserialize frame = Inr tracks \<longrightarrow> timestamp_ordered frame \<longrightarrow>
      (\<forall>t\<in>set tracks. track_invariant t)) \<and>
   (get_case deserialize sc c = Inr cs \<longrightarrow>
      timestamp_ordered (filter (\<lambda>r. case_id r = c) (slot_frames sc)) \<longrightarrow>
      (\<forall>t\<in>set (history_tracks cs) \<union> set (current_tracks cs) \<union> set (futural_tracks cs).
         track_invariant t))"
proof (intro conjI impI ballI)
  fix t
  assume "get_tracks_from_frame deserialize frame = Inr tracks" "timestamp_ordered frame"
    "t \<in> set tracks"
  then show "track_invariant t"
    using tracks_by_key_invariant get_tracks_from_frame_Inr by blast
next
  fix t
  assume cs: "get_case deserialize sc c = Inr cs"
    and ord: "timestamp_ordered (filter (\<lambda>r. case_id r = c) (slot_frames sc))"
    and t: "t \<in> set (history_tracks cs) \<union> set (current_tracks cs) \<union> set (futural_tracks cs)"
  from t show "track_invariant t"
    unfolding get_case_Inr(1-3) [OF cs]
    using tracks_by_key_invariant [OF timestamp_ordered_filter [OF ord]] by blast
qed

theorem tracks_satisfy_invariant_witness:
  "get_tracks_from_frame deserialize_example
     [csv_row 2 5 100 (Raw ''car''), csv_row 2 7 100 (Raw ''car''), csv_row 2 5 200 (Raw ''car'')] =
     Inr [\<lparr>tr_agent_id = 5, tr_type = CAR,
           tr_motion_states =
             [\<lparr>ms_agent_id = 5, ms_timestamp_ms = 100, ms_kinematics = ()\<rparr>,
              \<lparr>ms_agent_id = 5, ms_timestamp_ms = 200, ms_kinematics = ()\<rparr>]\<rparr>,
          \<lparr>tr_agent_id = 7, tr_type = CAR,
           tr_motion_states = [\<lparr>ms_agent_id = 7, ms_timestamp_ms = 100, ms_kinematics = ()\<rparr>]\<rparr>] \<and>
   timestamp_ordered
     [csv_row 2 5 100 (Raw ''car''), csv_row 2 7 100 (Raw ''car''), csv_row 2 5 200 (Raw ''car'')] \<and>
   track_invariant \<lparr>tr_agent_id = 5, tr_type = CAR,
           tr_motion_states =
             [\<lparr>ms_agent_id = 5, ms_timestamp_ms = 100, ms_kinematics = ()\<rparr>,
              \<lparr>ms_agent_id = 5, ms_timestamp_ms = 200, ms_kinematics = ()\<rparr>]\<rparr> \<and>
   (\<exists>cs. get_case deserialize_example example_scenario 2 = Inr cs \<and>
      timestamp_ordered (filter (\<lambda>r. case_id r = 2) (slot_frames example_scenario)) \<and>
      list_all track_invariant (history_tracks cs @ current_tracks cs @ futural_tracks cs))"
proof -
  let ?frame = "[csv_row 2 5 100 (Raw ''car''), csv_row 2 7 100 (Raw ''car''),
                 csv_row 2 5 200 (Raw ''car'')]"
  let ?tracks = "[\<lparr>tr_agent_id = 5, tr_type = CAR,
           tr_motion_states =
             [\<lparr>ms_agent_id = 5, ms_timestamp_ms = 100, ms_kinematics = ()\<rparr>,
              \<lparr>ms_agent_id = 5, ms_timestamp_ms = 200, ms_kinematics = ()\<rparr>]\<rparr>,
          \<lparr>tr_agent_id = 7, tr_type = CAR,
           tr_motion_states = [\<lparr>ms_agent_id = 7, ms_timestamp_ms = 100, ms_kinematics = ()\<rparr>]\<rparr>]"
  have f: "get_tracks_from_frame deserialize_example ?frame = Inr ?tracks"
    by (simp add: get_tracks_from_frame_def deserialize_example_def csv_row_def motion_state_def)
  have o: "timestamp_ordered ?frame"
    by (simp add: timestamp_ordered_def csv_row_def)
  obtain cs where cs: "get_case deserialize_example example_scenario 2 = Inr cs"
    by (simp add: get_case_def tracks_of_def get_history_def get_current_def get_futural_def
        loc_def example_scenario_def csv_row_def get_tracks_from_frame_def
        deserialize_example_def)
  have oc: "timestamp_ordered (filter (\<lambda>r. case_id r = 2) (slot_frames example_scenario))"
    by (simp add: timestamp_ordered_def example_scenario_def csv_row_def)
  from tracks_satisfy_invariant [of deserialize_example ?frame ?tracks example_scenario 2 cs]
    f o cs oc
  show ?thesis
    by (auto simp: list_all_iff)
qed

text \<open>
  Rows sorted by timestamp are not enough: a track with two rows at the same timestamp
  keeps both, and its timestamps do not increase strictly.
\<close>

theorem tracks_sorted_frame_counterexample:
  "sorted (map timestamp_ms [csv_row 1 5 100 (Raw ''car''), csv_row 1 5 100 (Raw ''car'')]) \<and>
   get_tracks_from_frame deserialize_example
     [csv_row 1 5 100 (Raw ''car''), csv_row 1 5 100 (Raw ''car'')] =
     Inr [\<lparr>tr_agent_id = 5, tr_type = CAR,
           tr_motion_states =
             [\<lparr>ms_agent_id = 5, ms_timestamp_ms = 100, ms_kinematics = ()\<rparr>,
              \<lparr>ms_agent_id = 5, ms_timestamp_ms = 100, ms_kinematics = ()\<rparr>]\<rparr>] \<and>
   \<not> track_invariant
       \<lparr>tr_agent_id = 5, tr_type = CAR,
           tr_motion_states =
             [\<lparr>ms_agent_id = 5, ms_timestamp_ms = 100, ms_kinematics = ()\<rparr>,
              \<lparr>ms_agent_id = 5, ms_timestamp_ms = 100, ms_kinematics = ()\<rparr>]\<rparr>"
  by (simp add: get_tracks_from_frame_def deserialize_example_def csv_row_def motion_state_def
      track_invariant_def)

subsection \<open>Construction\<close>

lemma flagged_index_fails: "flagged_index flag df = Inl AttributeError"
  by (simp add: flagged_index_def)

lemma trainval_index_eq:
  "trainval_index df =
     Inr (PyDict (groupby_agg (\<lambda>(k, s). fst k) (map (\<lambda>(k, s). snd k)) (selected_tracks df)))"
  by (simp add: trainval_index_def)

lemma apply_deserialize_Inr:
  "apply_deserialize d rows = Inr df \<Longrightarrow>
   df = map (\<lambda>r. r\<lparr>agent_type := Member (the (d (agent_type r)))\<rparr>) rows \<and>
   (\<forall>r\<in>set rows. d (agent_type r) \<noteq> None)"
  by (induction rows arbitrary: df) (auto split: option.splits sum.splits)

lemma init_scenario_Inr:
  assumes "init_scenario read_csv joinpath d root loc_name split = Inr sc"
  shows "split \<noteq> ''test''"
    and "\<exists>rows. read_csv (track_file_of joinpath root loc_name split) = Inr rows \<and>
           apply_deserialize d rows = Inr (slot_frames sc)"
    and "slot_location sc = loc_name" and "slot_root sc = root" and "slot_split sc = split"
    and "slot_num_cases sc = length (unique (map case_id (slot_frames sc)))"
    and "slot_tracks_to_predict sc =
           PyDict (groupby_agg (\<lambda>(k, s). fst k) (map (\<lambda>(k, s). snd k))
                     (selected_tracks (slot_frames sc)))"
    and "slot_interesting_agents sc =
           PyDict (map (\<lambda>c. (c, [])) (unique (map case_id (slot_frames sc))))"
  using assms
  by (auto simp: init_scenario_def flagged_index_fails trainval_index_eq
      split: sum.splits if_splits)

lemma resolve_split_Inr:
  "resolve_split root split = Inr s \<Longrightarrow> s = ''train'' \<or> s = ''val'' \<or> s = ''test''"
  by (auto simp: resolve_split_def Let_def split: sum.splits option.splits if_splits)

lemma INTERACTIONScenario_Inr:
  assumes "INTERACTIONScenario read_csv joinpath d root loc_name split = Inr sc"
  shows "resolve_split root split = Inr (slot_split sc)"
    and "init_scenario read_csv joinpath d root loc_name (slot_split sc) = Inr sc"
    and "slot_split sc = ''train'' \<or> slot_split sc = ''val''"
proof -
  from assms obtain s where s: "resolve_split root split = Inr s"
    and init: "init_scenario read_csv joinpath d root loc_name s = Inr sc"
    by (auto simp: INTERACTIONScenario_def split: sum.splits)
  from init_scenario_Inr(5) [OF init] have eq: "slot_split sc = s" .
  from s eq show "resolve_split root split = Inr (slot_split sc)" by simp
  from init eq show "init_scenario read_csv joinpath d root loc_name (slot_split sc) = Inr sc"
    by simp
  from resolve_split_Inr [OF s] init_scenario_Inr(1) [OF init] eq
  show "slot_split sc = ''train'' \<or> slot_split sc = ''val''" by auto
qed

text \<open>Construction succeeds on every train or val file whose agent types decode.\<close>

lemma apply_deserialize_ok:
  "\<forall>r\<in>set rows. d (agent_type r) \<noteq> None \<Longrightarrow> \<exists>df. apply_deserialize d rows = Inr df"
  by (induction rows) auto

lemma init_scenario_trainval:
  assumes "split \<noteq> ''test''"
    and "read_csv (track_file_of joinpath root loc_name split) = Inr rows"
    and "\<forall>r\<in>set rows. d (agent_type r) \<noteq> None"
  shows "\<exists>sc. init_scenario read_csv joinpath d root loc_name split = Inr sc"
proof -
  from apply_deserialize_ok [OF assms(3)] obtain df where "apply_deserialize d rows = Inr df"
    by blast
  with assms(1,2) show ?thesis
    by (simp add: init_scenario_def trainval_index_eq)
qed

lemma INTERACTIONScenario_trainval:
  assumes s: "resolve_split root split = Inr s" and "s \<noteq> ''test''"
    and rows: "read_csv (track_file_of joinpath root loc_name s) = Inr rows"
    and "\<forall>r\<in>set rows. d (agent_type r) \<noteq> None"
  shows "\<exists>sc. INTERACTIONScenario read_csv joinpath d root loc_name split = Inr sc \<and>
           slot_split sc = s \<and> read_csv (track_file joinpath sc) = Inr rows \<and>
           apply_deserialize d rows = Inr (slot_frames sc)"
proof -
  from init_scenario_trainval [where read_csv = read_csv and d = d, OF assms(2-4)] obtain sc
    where init: "init_scenario read_csv joinpath d root loc_name s = Inr sc"
    by blast
  have tf: "track_file joinpath sc = track_file_of joinpath root loc_name s"
    by (simp add: track_file_def init_scenario_Inr(3,4,5) [OF init])
  from init_scenario_Inr(2) [OF init] rows
  have "apply_deserialize d rows = Inr (slot_frames sc)"
    by auto
  with s init tf rows init_scenario_Inr(5) [OF init] show ?thesis
    by (simp add: INTERACTIONScenario_def)
qed

subsection \<open>Errors of get\_case\<close>

lemma get_tracks_from_frame_Inl:
  "get_tracks_from_frame d frame = Inl e \<Longrightarrow> e = DecodingError"
  by (simp add: get_tracks_from_frame_eq split: if_splits)

lemma getitem_int_Inl: "getitem_int obj i = Inl e \<Longrightarrow> e = KeyError"
  by (cases obj) (auto split: option.splits)

lemma loc_Inl: "loc df c = Inl e \<Longrightarrow> e = KeyError"
  by (auto simp: loc_def Let_def split: if_splits)

lemma tracks_of_window_Inl:
  "tracks_of d (get_history sc c) = Inl e \<Longrightarrow> e = KeyError \<or> e = DecodingError"
  "tracks_of d (get_current sc c) = Inl e \<Longrightarrow> e = KeyError \<or> e = DecodingError"
  "tracks_of d (get_futural sc c) = Inl e \<Longrightarrow> e = KeyError \<or> e = DecodingError"
  by (auto simp: tracks_of_def get_history_def get_current_def get_futural_def
      split: sum.splits dest: loc_Inl get_tracks_from_frame_Inl)

lemma get_case_Inl:
  assumes "get_case d sc c = Inl e"
  shows "e = KeyError \<or> e = DecodingError"
proof -
  consider "tracks_of d (get_history sc c) = Inl e" | "tracks_of d (get_current sc c) = Inl e"
    | "tracks_of d (get_futural sc c) = Inl e"
    | "getitem_int (slot_tracks_to_predict sc) c = Inl e"
    | "getitem_int (slot_interesting_agents sc) c = Inl e"
    using assms by (auto simp: get_case_def split: sum.splits)
  then show ?thesis
    by cases (auto dest: tracks_of_window_Inl getitem_int_Inl)
qed

lemma get_case_absent:
  "c \<notin> case_id ` set (slot_frames sc) \<Longrightarrow> get_case d sc c = Inl KeyError"
proof -
  assume "c \<notin> case_id ` set (slot_frames sc)"
  then have "filter (\<lambda>r. case_id r = c) (slot_frames sc) = []"
    by (auto simp: filter_empty_conv)
  then show ?thesis
    by (simp add: get_case_def tracks_of_def get_history_def loc_def)
qed

text \<open>
  C1 (as amended). \<open>get_case\<close> makes no range check of its own: it never fails with
  the range error (a \<open>ValueError\<close>), whatever the case id; for a case id that no row of
  the MOTION\_STATE layer carries, it fails with the key error of the lookup. The comparison
  of the case id with \<open>num_cases\<close>, and the range error, belong to \<open>render\<close>, which
  makes it before it calls \<open>get_case\<close>.
\<close>

theorem get_case_no_range_check:
  "get_case deserialize sc c \<noteq> Inl ValueError \<and>
   (c \<notin> case_id ` set (slot_frames sc) \<longrightarrow> get_case deserialize sc c = Inl KeyError) \<and>
   render deserialize sc c =
     (if c \<ge> int (num_cases sc) then Inl ValueError else get_case deserialize sc c)"
proof (intro conjI impI)
  show "get_case deserialize sc c \<noteq> Inl ValueError"
    using get_case_Inl [of deserialize sc c ValueError] by auto
  show "get_case deserialize sc c = Inl KeyError" if "c \<notin> case_id ` set (slot_frames sc)"
    using that by (rule get_case_absent)
  show "render deserialize sc c =
     (if c \<ge> int (num_cases sc) then Inl ValueError else get_case deserialize sc c)"
    by (simp add: render_def num_cases_def)
qed

lemma example_get_case_2:
  "get_case deserialize_example example_scenario 2 =
     Inr \<lparr>c_location = ''EP0'', c_case_id = 2,
          history_tracks =
            [\<lparr>tr_agent_id = 5, tr_type = CAR, tr_motion_states =
               [\<lparr>ms_agent_id = 5, ms_timestamp_ms = 100, ms_kinematics = ()\<rparr>,
                \<lparr>ms_agent_id = 5, ms_timestamp_ms = 1000, ms_kinematics = ()\<rparr>]\<rparr>,
             \<lparr>tr_agent_id = 7, tr_type = PEDESTRIAN_BICYCLE, tr_motion_states =
               [\<lparr>ms_agent_id = 7, ms_timestamp_ms = 100, ms_kinematics = ()\<rparr>,
                \<lparr>ms_agent_id = 7, ms_timestamp_ms = 1000, ms_kinematics = ()\<rparr>]\<rparr>],
          current_tracks =
            [\<lparr>tr_agent_id = 5, tr_type = CAR, tr_motion_states =
               [\<lparr>ms_agent_id = 5, ms_timestamp_ms = 1000, ms_kinematics = ()\<rparr>]\<rparr>,
             \<lparr>tr_agent_id = 7, tr_type = PEDESTRIAN_BICYCLE, tr_motion_states =
               [\<lparr>ms_agent_id = 7, ms_timestamp_ms = 1000, ms_kinematics = ()\<rparr>]\<rparr>],
          futural_tracks =
            [\<lparr>tr_agent_id = 5, tr_type = CAR, tr_motion_states =
               [\<lparr>ms_agent_id = 5, ms_timestamp_ms = 1100, ms_kinematics = ()\<rparr>,
                \<lparr>ms_agent_id = 5, ms_timestamp_ms = 4000, ms_kinematics = ()\<rparr>]\<rparr>,
             \<lparr>tr_agent_id = 7, tr_type = PEDESTRIAN_BICYCLE, tr_motion_states =
               [\<lparr>ms_agent_id = 7, ms_timestamp_ms = 4000, ms_kinematics = ()\<rparr>]\<rparr>],
          c_tracks_to_predict = [5], c_interesting_agents = []\<rparr>"
  by (simp add: get_case_def tracks_of_def get_history_def get_current_def get_futural_def
      loc_def example_scenario_def csv_row_def get_tracks_from_frame_def
      deserialize_example_def motion_state_def)

theorem get_case_no_range_check_witness:
  "get_case deserialize_example example_scenario 3 = Inl KeyError \<and>
   render deserialize_example example_scenario 3 = Inl ValueError \<and>
   get_case deserialize_example example_scenario 1 \<noteq> Inl ValueError"
proof -
  have absent: "3 \<notin> case_id ` set (slot_frames example_scenario)"
    by (simp add: example_scenario_def csv_row_def)
  have n: "(3::int) \<ge> int (num_cases example_scenario)"
    by (simp add: example_scenario_def num_cases_def)
  from get_case_no_range_check [of deserialize_example example_scenario 3] absent n
  have "get_case deserialize_example example_scenario 3 = Inl KeyError"
    and "render deserialize_example example_scenario 3 = Inl ValueError"
    by simp_all
  moreover from get_case_no_range_check [of deserialize_example example_scenario 1]
  have "get_case deserialize_example example_scenario 1 \<noteq> Inl ValueError"
    by simp
  ultimately show ?thesis by simp
qed

text \<open>
  In the example file the case ids are 1 and 2, so \<open>num_cases\<close> is 2: \<open>get_case\<close>
  serves case 2, which is not below \<open>num_cases\<close>, and answers the absent case 3 with a
  key error, not with the range error.
\<close>

theorem get_case_range_error_counterexample:
  "INTERACTIONScenario read_csv_example joinpath_example deserialize_example
     [''/'', ''data'', ''train''] ''EP0'' None = Inr example_scenario \<and>
   num_cases example_scenario = 2 \<and>
   map_sum id c_tracks_to_predict (get_case deserialize_example example_scenario 2) = Inr [5] \<and>
   get_case deserialize_example example_scenario 3 = Inl KeyError"
proof -
  have "num_cases example_scenario = 2"
    by (simp add: example_scenario_def num_cases_def)
  moreover have "3 \<notin> case_id ` set (slot_frames example_scenario)"
    by (simp add: example_scenario_def csv_row_def)
  then have "get_case deserialize_example example_scenario 3 = Inl KeyError"
    by (rule get_case_absent)
  ultimately show ?thesis
    by (simp add: example_scenario_constructed example_get_case_2)
qed

subsection \<open>Time windows\<close>

lemma length_three_windows:
  "length (filter (\<lambda>r. timestamp_ms r < (1000::int)) rows) +
   length (filter (\<lambda>r. timestamp_ms r = 1000) rows) +
   length (filter (\<lambda>r. timestamp_ms r > 1000) rows) = length rows"
  by (induction rows) auto

text \<open>
  C3. For a case id that has rows in the MOTION\_STATE layer, the history window is exactly
  the rows of that case with timestamp at most 1000, the current window exactly those at
  1000 and the future window exactly those after 1000, each in frame order. So the current
  window lies within the history window, a row at timestamp 1000 is in both, and every row
  of the case is in exactly one of history without current, current, and future. For a
  case id without rows each of the three helpers fails with the key error of the lookup.
\<close>

theorem windows_partition:
  "(c \<notin> case_id ` set (slot_frames sc) \<longrightarrow>
      get_history sc c = Inl KeyError \<and> get_current sc c = Inl KeyError \<and>
      get_futural sc c = Inl KeyError) \<and>
   (c \<in> case_id ` set (slot_frames sc) \<longrightarrow>
   (\<exists>rows history current futural.
      rows = filter (\<lambda>r. case_id r = c) (slot_frames sc) \<and>
      get_history sc c = Inr history \<and> get_current sc c = Inr current \<and>
      get_futural sc c = Inr futural \<and>
      history = filter (\<lambda>r. timestamp_ms r \<le> 1000) rows \<and>
      current = filter (\<lambda>r. timestamp_ms r = 1000) rows \<and>
      futural = filter (\<lambda>r. timestamp_ms r > 1000) rows \<and>
      set current \<subseteq> set history \<and>
      (\<forall>r\<in>set rows. timestamp_ms r = 1000 \<longrightarrow> r \<in> set history \<and> r \<in> set current) \<and>
      (\<forall>r\<in>set rows.
         (r \<in> set history - set current \<and> r \<notin> set current \<and> r \<notin> set futural) \<or>
         (r \<notin> set history - set current \<and> r \<in> set current \<and> r \<notin> set futural) \<or>
         (r \<notin> set history - set current \<and> r \<notin> set current \<and> r \<in> set futural)) \<and>
      length (filter (\<lambda>r. r \<notin> set current) history) + length current + length futural =
        length rows))"
proof (intro conjI impI)
  assume "c \<notin> case_id ` set (slot_frames sc)"
  then have "filter (\<lambda>r. case_id r = c) (slot_frames sc) = []"
    by (auto simp: filter_empty_conv)
  then show "get_history sc c = Inl KeyError" "get_current sc c = Inl KeyError"
    "get_futural sc c = Inl KeyError"
    by (simp_all add: get_history_def get_current_def get_futural_def loc_def)
next
  assume "c \<in> case_id ` set (slot_frames sc)"
  let ?rows = "filter (\<lambda>r. case_id r = c) (slot_frames sc)"
  let ?h = "filter (\<lambda>r. timestamp_ms r \<le> 1000) ?rows"
  let ?c = "filter (\<lambda>r. timestamp_ms r = 1000) ?rows"
  let ?f = "filter (\<lambda>r. timestamp_ms r > 1000) ?rows"
  from \<open>c \<in> case_id ` set (slot_frames sc)\<close> have "?rows \<noteq> []"
    by (auto simp: filter_empty_conv)
  then have l: "loc (slot_frames sc) c = Inr ?rows"
    by (simp add: loc_def)
  have "filter (\<lambda>r. r \<notin> set ?c) ?h = filter (\<lambda>r. timestamp_ms r < 1000) ?rows"
    unfolding filter_filter [of _ "\<lambda>r. timestamp_ms r \<le> 1000" ?rows]
    by (rule filter_cong) auto
  then have len: "length (filter (\<lambda>r. r \<notin> set ?c) ?h) + length ?c + length ?f = length ?rows"
    by (simp only: length_three_windows)
  have "get_history sc c = Inr ?h" "get_current sc c = Inr ?c" "get_futural sc c = Inr ?f"
    using l by (simp_all add: get_history_def get_current_def get_futural_def)
  moreover have "set ?c \<subseteq> set ?h" by auto
  moreover have "\<forall>r\<in>set ?rows. timestamp_ms r = 1000 \<longrightarrow> r \<in> set ?h \<and> r \<in> set ?c"
    by auto
  moreover have "\<forall>r\<in>set ?rows.
         (r \<in> set ?h - set ?c \<and> r \<notin> set ?c \<and> r \<notin> set ?f) \<or>
         (r \<notin> set ?h - set ?c \<and> r \<in> set ?c \<and> r \<notin> set ?f) \<or>
         (r \<notin> set ?h - set ?c \<and> r \<notin> set ?c \<and> r \<in> set ?f)"
    by auto
  ultimately show "\<exists>rows history current futural.
      rows = filter (\<lambda>r. case_id r = c) (slot_frames sc) \<and>
      get_history sc c = Inr history \<and> get_current sc c = Inr current \<and>
      get_futural sc c = Inr futural \<and>
      history = filter (\<lambda>r. timestamp_ms r \<le> 1000) rows \<and>
      current = filter (\<lambda>r. timestamp_ms r = 1000) rows \<and>
      futural = filter (\<lambda>r. timestamp_ms r > 1000) rows \<and>
      set current \<subseteq> set history \<and>
      (\<forall>r\<in>set rows. timestamp_ms r = 1000 \<longrightarrow> r \<in> set history \<and> r \<in> set current) \<and>
      (\<forall>r\<in>set rows.
         (r \<in> set history - set current \<and> r \<notin> set current \<and> r \<notin> set futural) \<or>
         (r \<notin> set history - set current \<and> r \<in> set current \<and> r \<notin> set futural) \<or>
         (r \<notin> set history - set current \<and> r \<notin> set current \<and> r \<in> set futural)) \<and>
      length (filter (\<lambda>r. r \<notin> set current) history) + length current + length futural =
        length rows"
    using len by blast
qed

theorem windows_partition_witness:
  "get_history example_scenario 2 =
     Inr [csv_row 2 5 100 (Member CAR), csv_row 2 7 100 (Member PEDESTRIAN_BICYCLE),
          csv_row 2 5 1000 (Member CAR), csv_row 2 7 1000 (Member PEDESTRIAN_BICYCLE)] \<and>
   get_current example_scenario 2 =
     Inr [csv_row 2 5 1000 (Member CAR), csv_row 2 7 1000 (Member PEDESTRIAN_BICYCLE)] \<and>
   get_futural example_scenario 2 =
     Inr [csv_row 2 5 1100 (Member CAR), csv_row 2 5 4000 (Member CAR),
          csv_row 2 7 4000 (Member PEDESTRIAN_BICYCLE)] \<and>
   get_history example_scenario 1 = Inr [csv_row 1 9 100 (Member PEDESTRIAN_BICYCLE)] \<and>
   get_current example_scenario 1 = Inr [] \<and>
   get_futural example_scenario 1 = Inr [csv_row 1 9 4000 (Member PEDESTRIAN_BICYCLE)] \<and>
   get_history example_scenario 3 = Inl KeyError"
proof -
  have in1: "1 \<in> case_id ` set (slot_frames example_scenario)"
    and in2: "2 \<in> case_id ` set (slot_frames example_scenario)"
    and out3: "3 \<notin> case_id ` set (slot_frames example_scenario)"
    by (simp_all add: example_scenario_def csv_row_def)
  have r1: "filter (\<lambda>r. case_id r = 1) (slot_frames example_scenario) =
     [csv_row 1 9 100 (Member PEDESTRIAN_BICYCLE), csv_row 1 9 4000 (Member PEDESTRIAN_BICYCLE)]"
    by (simp add: example_scenario_def) (simp add: csv_row_def)
  have r2: "filter (\<lambda>r. case_id r = 2) (slot_frames example_scenario) =
     [csv_row 2 5 100 (Member CAR), csv_row 2 7 100 (Member PEDESTRIAN_BICYCLE),
      csv_row 2 5 1000 (Member CAR), csv_row 2 7 1000 (Member PEDESTRIAN_BICYCLE),
      csv_row 2 5 1100 (Member CAR), csv_row 2 5 4000 (Member CAR),
      csv_row 2 7 4000 (Member PEDESTRIAN_BICYCLE)]"
    by (simp add: example_scenario_def) (simp add: csv_row_def)
  from windows_partition [of 1 example_scenario, unfolded r1] in1
  have "get_history example_scenario 1 = Inr [csv_row 1 9 100 (Member PEDESTRIAN_BICYCLE)]"
    "get_current example_scenario 1 = Inr []"
    "get_futural example_scenario 1 = Inr [csv_row 1 9 4000 (Member PEDESTRIAN_BICYCLE)]"
    by (simp_all add: csv_row_def)
  moreover from windows_partition [of 2 example_scenario, unfolded r2] in2
  have "get_history example_scenario 2 =
     Inr [csv_row 2 5 100 (Member CAR), csv_row 2 7 100 (Member PEDESTRIAN_BICYCLE),
          csv_row 2 5 1000 (Member CAR), csv_row 2 7 1000 (Member PEDESTRIAN_BICYCLE)]"
    "get_current example_scenario 2 =
     Inr [csv_row 2 5 1000 (Member CAR), csv_row 2 7 1000 (Member PEDESTRIAN_BICYCLE)]"
    "get_futural example_scenario 2 =
     Inr [csv_row 2 5 1100 (Member CAR), csv_row 2 5 4000 (Member CAR),
          csv_row 2 7 4000 (Member PEDESTRIAN_BICYCLE)]"
    by (simp_all add: csv_row_def)
  moreover from windows_partition [of 3 example_scenario] out3
  have "get_history example_scenario 3 = Inl KeyError"
    by blast
  ultimately show ?thesis by simp
qed

subsection \<open>Indexing, length and the number of cases\<close>

lemma length_unique: "length (unique xs) = card (set xs)"
  by (simp add: unique_def length_remdups_card_conv)

lemma apply_deserialize_case_ids:
  "apply_deserialize d rows = Inr df \<Longrightarrow> map case_id df = map case_id rows"
  by (auto dest!: apply_deserialize_Inr simp: comp_def)

text \<open>
  C7. Indexing a scenario is \<open>get_case\<close> and its length is \<open>num_cases\<close>. Every
  constructed scenario has as \<open>num_cases\<close> the number of distinct case ids among the
  rows of its track file; and on every train or val file whose agent types decode,
  construction succeeds and gives a scenario whose \<open>num_cases\<close> and length are that
  number.
\<close>

theorem getitem_len_num_cases:
  "getitem_scenario deserialize sc c = get_case deserialize sc c \<and>
   len_scenario sc = num_cases sc \<and>
   (INTERACTIONScenario read_csv joinpath deserialize root loc_name split = Inr sc \<longrightarrow>
      (\<exists>rows. read_csv (track_file joinpath sc) = Inr rows \<and>
         num_cases sc = card (case_id ` set rows))) \<and>
   (resolve_split root split = Inr s \<longrightarrow> s \<noteq> ''test'' \<longrightarrow>
    read_csv (track_file_of joinpath root loc_name s) = Inr file_rows \<longrightarrow>
    (\<forall>r\<in>set file_rows. deserialize (agent_type r) \<noteq> None) \<longrightarrow>
      (\<exists>sc'. INTERACTIONScenario read_csv joinpath deserialize root loc_name split = Inr sc' \<and>
         num_cases sc' = card (case_id ` set file_rows) \<and>
         len_scenario sc' = card (case_id ` set file_rows)))"
proof -
  have counted: "\<exists>rows. read_csv (track_file joinpath sc') = Inr rows \<and>
         num_cases sc' = card (case_id ` set rows)"
    if c: "INTERACTIONScenario read_csv joinpath deserialize root loc_name split = Inr sc'"
    for sc' :: "'a scenario"
  proof -
    note init = INTERACTIONScenario_Inr(2) [OF c]
    from init_scenario_Inr(2) [OF init] obtain rows
      where rows: "read_csv (track_file_of joinpath root loc_name (slot_split sc')) = Inr rows"
        and df: "apply_deserialize deserialize rows = Inr (slot_frames sc')"
      by blast
    have "track_file joinpath sc' = track_file_of joinpath root loc_name (slot_split sc')"
      by (simp add: track_file_def init_scenario_Inr(3,4) [OF init])
    moreover have "num_cases sc' = card (case_id ` set rows)"
    proof -
      have "num_cases sc' = card (set (map case_id (slot_frames sc')))"
        by (simp add: num_cases_def init_scenario_Inr(6) [OF init] length_unique del: set_map)
      also have "\<dots> = card (case_id ` set rows)"
        by (simp add: apply_deserialize_case_ids [OF df])
      finally show ?thesis .
    qed
    ultimately show ?thesis using rows by simp
  qed
  have built: "\<exists>sc'. INTERACTIONScenario read_csv joinpath deserialize root loc_name split = Inr sc' \<and>
         num_cases sc' = card (case_id ` set file_rows) \<and>
         len_scenario sc' = card (case_id ` set file_rows)"
    if "resolve_split root split = Inr s" "s \<noteq> ''test''"
      "read_csv (track_file_of joinpath root loc_name s) = Inr file_rows"
      "\<forall>r\<in>set file_rows. deserialize (agent_type r) \<noteq> None"
  proof -
    from INTERACTIONScenario_trainval [where read_csv = read_csv and d = deserialize, OF that]
    obtain sc'
      where c: "INTERACTIONScenario read_csv joinpath deserialize root loc_name split = Inr sc'"
        and rd: "read_csv (track_file joinpath sc') = Inr file_rows"
      by blast
    from counted [OF c] rd have "num_cases sc' = card (case_id ` set file_rows)"
      by auto
    with c show ?thesis by (auto simp: len_scenario_def)
  qed
  show ?thesis
    using counted built by (simp add: getitem_scenario_def len_scenario_def)
qed

theorem getitem_len_num_cases_witness:
  "(\<exists>sc. INTERACTIONScenario read_csv_example joinpath_example deserialize_example
           [''/'', ''data'', ''train''] ''EP0'' None = Inr sc \<and>
         num_cases sc = 2 \<and> len_scenario sc = 2) \<and>
   map case_id example_csv = [1, 1, 2, 2, 2, 2, 2, 2, 2] \<and>
   INTERACTIONScenario read_csv_example joinpath_example deserialize_example
     [''/'', ''data'', ''train''] ''EP0'' None = Inr example_scenario \<and>
   getitem_scenario deserialize_example example_scenario 2 =
     get_case deserialize_example example_scenario 2 \<and>
   len_scenario example_scenario = 2"
proof -
  have s: "resolve_split [''/'', ''data'', ''train''] None = Inr ''train''"
    by (simp add: resolve_split_def sublist_code)
  have rd: "read_csv_example (track_file_of joinpath_example [''/'', ''data'', ''train'']
              ''EP0'' ''train'') = Inr example_csv"
    by (simp add: track_file_of_def track_file_name_def joinpath_example_def
        read_csv_example_def)
  have ok: "\<forall>r\<in>set example_csv. deserialize_example (agent_type r) \<noteq> None"
    by (simp add: example_csv_def csv_row_def deserialize_example_def)
  have ids: "map case_id example_csv = [1, 1, 2, 2, 2, 2, 2, 2, 2]"
    by (simp add: example_csv_def csv_row_def)
  have card: "card (case_id ` set example_csv) = 2"
    unfolding set_map [symmetric] ids by simp
  note t = getitem_len_num_cases [of deserialize_example example_scenario 2 read_csv_example
      joinpath_example "[''/'', ''data'', ''train'']" "''EP0''" None "''train''" example_csv]
  from t s rd ok
  have "\<exists>sc. INTERACTIONScenario read_csv_example joinpath_example deserialize_example
           [''/'', ''data'', ''train''] ''EP0'' None = Inr sc \<and>
         num_cases sc = 2 \<and> len_scenario sc = 2"
    unfolding card by simp
  moreover from t
  have "getitem_scenario deserialize_example example_scenario 2 =
     get_case deserialize_example example_scenario 2" by blast
  moreover from t have "len_scenario example_scenario = num_cases example_scenario" by blast
  then have "len_scenario example_scenario = 2"
    by (simp add: num_cases_def example_scenario_def)
  ultimately show ?thesis
    using ids example_scenario_constructed by simp
qed

subsection \<open>The track file\<close>

text \<open>
  C9. The track file of a scenario is its root joined with \<open>{location}_obs.csv\<close> when
  the split is test and with \<open>{location}_{split}.csv\<close> otherwise; a constructed
  scenario keeps the root and location it was given, and this is the file it was read from.
\<close>

theorem track_file_path:
  "track_file joinpath sc =
     joinpath (slot_root sc)
       (if slot_split sc = ''test'' then slot_location sc @ ''_obs.csv''
        else slot_location sc @ ''_'' @ slot_split sc @ ''.csv'') \<and>
   (INTERACTIONScenario read_csv joinpath deserialize root loc_name split = Inr sc \<longrightarrow>
      slot_root sc = root \<and> slot_location sc = loc_name \<and>
      (\<exists>rows. read_csv (track_file joinpath sc) = Inr rows))"
proof (intro conjI impI)
  show "track_file joinpath sc =
     joinpath (slot_root sc)
       (if slot_split sc = ''test'' then slot_location sc @ ''_obs.csv''
        else slot_location sc @ ''_'' @ slot_split sc @ ''.csv'')"
    by (simp add: track_file_def track_file_of_def track_file_name_def)
next
  assume c: "INTERACTIONScenario read_csv joinpath deserialize root loc_name split = Inr sc"
  note init = INTERACTIONScenario_Inr(2) [OF c]
  show "slot_root sc = root" "slot_location sc = loc_name"
    by (rule init_scenario_Inr [OF init])+
  then show "\<exists>rows. read_csv (track_file joinpath sc) = Inr rows"
    using init_scenario_Inr(2) [OF init] by (auto simp: track_file_def)
qed

theorem track_file_path_witness:
  "track_file joinpath_example example_scenario = ''/data/train/EP0_train.csv'' \<and>
   track_file joinpath_example (example_scenario\<lparr>slot_split := ''test''\<rparr>) =
     ''/data/train/EP0_obs.csv'' \<and>
   read_csv_example (track_file joinpath_example example_scenario) = Inr example_csv"
proof -
  from track_file_path [of joinpath_example example_scenario read_csv_example
      deserialize_example "[''/'', ''data'', ''train'']" "''EP0''" None]
    example_scenario_constructed
  have "\<exists>rows. read_csv_example (track_file joinpath_example example_scenario) = Inr rows"
    by blast
  then show ?thesis
    by (simp add: track_file_def track_file_of_def track_file_name_def example_scenario_def
        joinpath_example_def read_csv_example_def)
qed

subsection \<open>The split\<close>

lemma resolve_split_None:
  "root \<noteq> [] \<Longrightarrow>
   resolve_split root None =
     (if sublist ''train'' (last root) then Inr ''train''
      else if sublist ''val'' (last root) then Inr ''val''
      else if sublist ''test'' (last root) then Inr ''test''
      else Inl ValueError)"
  by (simp add: resolve_split_def Let_def)

lemma resolve_split_Some:
  "resolve_split root (Some s) =
     (if s = ''train'' \<or> s = ''val'' \<or> s = ''test'' then Inr s else Inl AssertionError)"
  by (simp add: resolve_split_def)

lemma INTERACTIONScenario_split_error:
  "resolve_split root split = Inl e \<Longrightarrow>
   INTERACTIONScenario read_csv joinpath d root loc_name split = Inl e"
  by (simp add: INTERACTIONScenario_def)

text \<open>
  C6. With no split given, the split is read off the last part of the root, looking for
  the substrings train, val and test in this order; when none occurs, construction fails
  with a \<open>ValueError\<close>, and when a given split is not one of train, val and test it
  fails with the \<open>AssertionError\<close> of the assertion: the two configuration errors. A
  constructed scenario has one of the three splits, and train when no split was given and
  the last part of the root contains train.
\<close>

theorem split_resolution:
  "(root \<noteq> [] \<longrightarrow>
      resolve_split root None =
        (if sublist ''train'' (last root) then Inr ''train''
         else if sublist ''val'' (last root) then Inr ''val''
         else if sublist ''test'' (last root) then Inr ''test''
         else Inl ValueError)) \<and>
   (root \<noteq> [] \<longrightarrow> \<not> sublist ''train'' (last root) \<longrightarrow> \<not> sublist ''val'' (last root) \<longrightarrow>
      \<not> sublist ''test'' (last root) \<longrightarrow>
      INTERACTIONScenario read_csv joinpath deserialize root loc_name None = Inl ValueError) \<and>
   (s \<notin> {''train'', ''val'', ''test''} \<longrightarrow>
      INTERACTIONScenario read_csv joinpath deserialize root loc_name (Some s) =
        Inl AssertionError) \<and>
   (INTERACTIONScenario read_csv joinpath deserialize root loc_name split = Inr sc \<longrightarrow>
      slot_split sc \<in> {''train'', ''val'', ''test''} \<and>
      (split = None \<longrightarrow> root \<noteq> [] \<longrightarrow> sublist ''train'' (last root) \<longrightarrow>
         slot_split sc = ''train''))"
proof (intro conjI impI)
  assume "root \<noteq> []"
  then show "resolve_split root None =
        (if sublist ''train'' (last root) then Inr ''train''
         else if sublist ''val'' (last root) then Inr ''val''
         else if sublist ''test'' (last root) then Inr ''test''
         else Inl ValueError)"
    by (rule resolve_split_None)
next
  assume "root \<noteq> []" "\<not> sublist ''train'' (last root)" "\<not> sublist ''val'' (last root)"
    "\<not> sublist ''test'' (last root)"
  then have "resolve_split root None = Inl ValueError"
    by (simp add: resolve_split_None)
  then show "INTERACTIONScenario read_csv joinpath deserialize root loc_name None = Inl ValueError"
    by (rule INTERACTIONScenario_split_error)
next
  assume "s \<notin> {''train'', ''val'', ''test''}"
  then have "resolve_split root (Some s) = Inl AssertionError"
    by (simp add: resolve_split_Some)
  then show "INTERACTIONScenario read_csv joinpath deserialize root loc_name (Some s) =
        Inl AssertionError"
    by (rule INTERACTIONScenario_split_error)
next
  assume c: "INTERACTIONScenario read_csv joinpath deserialize root loc_name split = Inr sc"
  from INTERACTIONScenario_Inr(3) [OF c]
  show "slot_split sc \<in> {''train'', ''val'', ''test''}" by auto
next
  assume c: "INTERACTIONScenario read_csv joinpath deserialize root loc_name split = Inr sc"
    and "split = None" "root \<noteq> []" "sublist ''train'' (last root)"
  with INTERACTIONScenario_Inr(1) [OF c] show "slot_split sc = ''train''"
    by (simp add: resolve_split_None)
qed

theorem split_resolution_witness:
  "resolve_split [''/'', ''data'', ''train''] None = Inr ''train'' \<and>
   resolve_split [''/'', ''data'', ''my_validation_set''] None = Inr ''val'' \<and>
   INTERACTIONScenario read_csv_example joinpath_example deserialize_example
     [''/'', ''data'', ''misc''] ''EP0'' None = Inl ValueError \<and>
   INTERACTIONScenario read_csv_example joinpath_example deserialize_example
     [''/'', ''data'', ''train''] ''EP0'' (Some ''training'') = Inl AssertionError \<and>
   slot_split example_scenario = ''train''"
proof -
  note t = split_resolution [of _ read_csv_example joinpath_example deserialize_example
      "''EP0''" _ _ example_scenario]
  from t [of "[''/'', ''data'', ''train'']" "''training''" None]
  have "resolve_split [''/'', ''data'', ''train''] None = Inr ''train''"
    and "INTERACTIONScenario read_csv_example joinpath_example deserialize_example
     [''/'', ''data'', ''train''] ''EP0'' (Some ''training'') = Inl AssertionError"
    and "slot_split example_scenario = ''train''"
    using example_scenario_constructed by (simp_all add: sublist_code)
  moreover from t [of "[''/'', ''data'', ''my_validation_set'']" "''x''" None]
  have "resolve_split [''/'', ''data'', ''my_validation_set''] None = Inr ''val''"
    by (simp add: sublist_code)
  moreover from t [of "[''/'', ''data'', ''misc'']" "''x''" None]
  have "INTERACTIONScenario read_csv_example joinpath_example deserialize_example
     [''/'', ''data'', ''misc''] ''EP0'' None = Inl ValueError"
    by (simp add: sublist_code)
  ultimately show ?thesis by simp
qed

subsection \<open>The index of tracks to predict, train and val\<close>

lemma map_of_groupby_agg:
  "map_of (groupby_agg key f rows) k =
     (if k \<in> key ` set rows then Some (f (filter (\<lambda>r. key r = k) rows)) else None)"
  by (simp add: groupby_agg_def map_of_map_restrict restrict_map_def)

lemma set_groupby_agg:
  "set (groupby_agg key f rows) = (\<lambda>k. (k, f (filter (\<lambda>r. key r = k) rows))) ` key ` set rows"
  by (simp add: groupby_agg_def)

lemma agg_min_Min: "xs \<noteq> [] \<Longrightarrow> agg_min xs = Some (Min (set xs))"
  by (cases xs) (simp_all add: Min.set_eq_fold [symmetric])

lemma agg_max_Max: "xs \<noteq> [] \<Longrightarrow> agg_max xs = Some (Max (set xs))"
  by (cases xs) (simp_all add: Max.set_eq_fold [symmetric])

lemma agg_first_hd: "xs \<noteq> [] \<Longrightarrow> agg_first xs = Some (hd xs)"
  by (cases xs) simp_all

lemma in_selected_tracks:
  "(k, s) \<in> set (selected_tracks df) \<longleftrightarrow>
     k \<in> (\<lambda>r. (case_id r, track_id r)) ` set df \<and>
     s = (Some 100, Some 4000, Some (Member CAR)) \<and>
     (let g = filter (\<lambda>r. (case_id r, track_id r) = k) df
      in Min (timestamp_ms ` set g) = 100 \<and> Max (timestamp_ms ` set g) = 4000 \<and>
         agent_type (hd g) = Member CAR)"
proof -
  let ?g = "filter (\<lambda>r. (case_id r, track_id r) = k) df"
  have ne: "?g \<noteq> []" if "k \<in> (\<lambda>r. (case_id r, track_id r)) ` set df"
    using that by (auto simp: filter_empty_conv)
  show ?thesis
  proof (cases "k \<in> (\<lambda>r. (case_id r, track_id r)) ` set df")
    case False
    then show ?thesis
      by (auto simp: selected_tracks_def track_summaries_def set_groupby_agg)
  next
    case True
    note n = ne [OF True]
    have "agg_min (map timestamp_ms ?g) = Some (Min (timestamp_ms ` set ?g))"
      "agg_max (map timestamp_ms ?g) = Some (Max (timestamp_ms ` set ?g))"
      "agg_first (map agent_type ?g) = Some (agent_type (hd ?g))"
      using n by (simp_all add: agg_min_Min agg_max_Max agg_first_hd hd_map)
    then show ?thesis
      using True
      by (auto simp: selected_tracks_def track_summaries_def set_groupby_agg Let_def)
  qed
qed

lemma trainval_lookup:
  "(\<exists>l. getitem_int (PyDict (groupby_agg (\<lambda>(k, s). fst k) (map (\<lambda>(k, s). snd k)) sel)) c = Inr l
        \<and> t \<in> set l) \<longleftrightarrow>
   (\<exists>s. ((c, t), s) \<in> set sel)"
  by (auto simp: map_of_groupby_agg split: option.splits if_splits) force+


lemma group_of_decoded:
  fixes d :: "agent_cell \<Rightarrow> AgentType option"
  defines "dec \<equiv> \<lambda>r::'k row. r\<lparr>agent_type := Member (the (d (agent_type r)))\<rparr>"
  shows "filter (\<lambda>r. (case_id r, track_id r) = (c, t)) (map dec rows) =
         map dec (filter (\<lambda>r. case_id r = c \<and> track_id r = t) rows)"
  by (simp add: filter_map comp_def dec_def)

lemma tracks_to_predict_of_rows:
  assumes df: "apply_deserialize d rows = Inr df" and r: "r \<in> set rows"
  defines "g \<equiv> filter (\<lambda>r'. case_id r' = case_id r \<and> track_id r' = track_id r) rows"
  shows "(\<exists>s. ((case_id r, track_id r), s) \<in> set (selected_tracks df)) \<longleftrightarrow>
         Min (timestamp_ms ` set g) = 100 \<and> Max (timestamp_ms ` set g) = 4000 \<and>
         d (agent_type (hd g)) = Some CAR"
proof -
  let ?dec = "\<lambda>r::'a row. r\<lparr>agent_type := Member (the (d (agent_type r)))\<rparr>"
  from apply_deserialize_Inr [OF df]
  have df_eq: "df = map ?dec rows" and ok: "\<forall>r\<in>set rows. d (agent_type r) \<noteq> None"
    by simp_all
  have ne: "g \<noteq> []"
    using r by (auto simp: g_def filter_empty_conv)
  then have "hd g \<in> set g" by simp
  then have "hd g \<in> set rows" by (simp add: g_def)
  with ok have dec_hd: "d (agent_type (hd g)) \<noteq> None" by blast
  have grp: "filter (\<lambda>r'. (case_id r', track_id r') = (case_id r, track_id r)) df = map ?dec g"
    unfolding df_eq g_def by (rule group_of_decoded)
  have key: "(case_id r, track_id r) \<in> (\<lambda>r. (case_id r, track_id r)) ` set df"
  proof -
    have "?dec r \<in> set df" using r by (simp add: df_eq)
    moreover have "(case_id (?dec r), track_id (?dec r)) = (case_id r, track_id r)" by simp
    ultimately show ?thesis by (metis (no_types, lifting) image_eqI)
  qed
  have ts: "timestamp_ms ` set (map ?dec g) = timestamp_ms ` set g"
    by (simp add: image_image)
  have ty: "agent_type (hd (map ?dec g)) = Member (the (d (agent_type (hd g))))"
    using ne by (simp add: hd_map)
  have "(\<exists>s. ((case_id r, track_id r), s) \<in> set (selected_tracks df)) \<longleftrightarrow>
        Min (timestamp_ms ` set (map ?dec g)) = 100 \<and> Max (timestamp_ms ` set (map ?dec g)) = 4000 \<and>
        agent_type (hd (map ?dec g)) = Member CAR"
    unfolding in_selected_tracks grp Let_def using key by simp
  also have "\<dots> \<longleftrightarrow> Min (timestamp_ms ` set g) = 100 \<and> Max (timestamp_ms ` set g) = 4000 \<and>
         d (agent_type (hd g)) = Some CAR"
    unfolding ts ty using dec_hd by auto
  finally show ?thesis .
qed

text \<open>
  C4. On every train or val file whose agent types decode, construction succeeds, and for
  every (case\_id, track\_id) group of the rows of the file the track id is listed in
  \<open>tracks_to_predict[case_id]\<close> of the scenario if and only if the least timestamp of
  the group is 100, the greatest is 4000 and the agent type of the group, that of its
  first row, decodes to CAR; a group whose type decodes to pedestrian/bicycle is not
  listed, whatever its timestamps.
\<close>

theorem tracks_to_predict_trainval:
  "resolve_split root split = Inr s \<longrightarrow> s \<noteq> ''test'' \<longrightarrow>
   read_csv (track_file_of joinpath root loc_name s) = Inr rows \<longrightarrow>
   (\<forall>r\<in>set rows. deserialize (agent_type r) \<noteq> None) \<longrightarrow>
   (\<exists>sc. INTERACTIONScenario read_csv joinpath deserialize root loc_name split = Inr sc \<and>
      (\<forall>r\<in>set rows.
         let g = filter (\<lambda>r'. case_id r' = case_id r \<and> track_id r' = track_id r) rows
         in ((\<exists>l. getitem_int (slot_tracks_to_predict sc) (case_id r) = Inr l \<and>
                  track_id r \<in> set l) \<longleftrightarrow>
               Min (timestamp_ms ` set g) = 100 \<and> Max (timestamp_ms ` set g) = 4000 \<and>
               deserialize (agent_type (hd g)) = Some CAR) \<and>
            (deserialize (agent_type (hd g)) = Some PEDESTRIAN_BICYCLE \<longrightarrow>
               \<not> (\<exists>l. getitem_int (slot_tracks_to_predict sc) (case_id r) = Inr l \<and>
                        track_id r \<in> set l))))"
proof (intro impI)
  assume a: "resolve_split root split = Inr s" "s \<noteq> ''test''"
    "read_csv (track_file_of joinpath root loc_name s) = Inr rows"
    "\<forall>r\<in>set rows. deserialize (agent_type r) \<noteq> None"
  from INTERACTIONScenario_trainval [where read_csv = read_csv and d = deserialize, OF a]
  obtain sc
    where c: "INTERACTIONScenario read_csv joinpath deserialize root loc_name split = Inr sc"
      and df: "apply_deserialize deserialize rows = Inr (slot_frames sc)"
    by blast
  note init = INTERACTIONScenario_Inr(2) [OF c]
  have "let g = filter (\<lambda>r'. case_id r' = case_id r \<and> track_id r' = track_id r) rows
         in ((\<exists>l. getitem_int (slot_tracks_to_predict sc) (case_id r) = Inr l \<and>
                  track_id r \<in> set l) \<longleftrightarrow>
               Min (timestamp_ms ` set g) = 100 \<and> Max (timestamp_ms ` set g) = 4000 \<and>
               deserialize (agent_type (hd g)) = Some CAR) \<and>
            (deserialize (agent_type (hd g)) = Some PEDESTRIAN_BICYCLE \<longrightarrow>
               \<not> (\<exists>l. getitem_int (slot_tracks_to_predict sc) (case_id r) = Inr l \<and>
                        track_id r \<in> set l))"
    if r: "r \<in> set rows" for r
  proof -
    let ?g = "filter (\<lambda>r'. case_id r' = case_id r \<and> track_id r' = track_id r) rows"
    have "(\<exists>l. getitem_int (slot_tracks_to_predict sc) (case_id r) = Inr l \<and> track_id r \<in> set l) \<longleftrightarrow>
          Min (timestamp_ms ` set ?g) = 100 \<and> Max (timestamp_ms ` set ?g) = 4000 \<and>
          deserialize (agent_type (hd ?g)) = Some CAR"
      unfolding init_scenario_Inr(7) [OF init] trainval_lookup
      by (rule tracks_to_predict_of_rows [OF df r])
    then show ?thesis unfolding Let_def by auto
  qed
  with c show "\<exists>sc. INTERACTIONScenario read_csv joinpath deserialize root loc_name split = Inr sc \<and>
      (\<forall>r\<in>set rows.
         let g = filter (\<lambda>r'. case_id r' = case_id r \<and> track_id r' = track_id r) rows
         in ((\<exists>l. getitem_int (slot_tracks_to_predict sc) (case_id r) = Inr l \<and>
                  track_id r \<in> set l) \<longleftrightarrow>
               Min (timestamp_ms ` set g) = 100 \<and> Max (timestamp_ms ` set g) = 4000 \<and>
               deserialize (agent_type (hd g)) = Some CAR) \<and>
            (deserialize (agent_type (hd g)) = Some PEDESTRIAN_BICYCLE \<longrightarrow>
               \<not> (\<exists>l. getitem_int (slot_tracks_to_predict sc) (case_id r) = Inr l \<and>
                        track_id r \<in> set l)))"
    by blast
qed

theorem tracks_to_predict_trainval_witness:
  "(\<exists>sc. INTERACTIONScenario read_csv_example joinpath_example deserialize_example
           [''/'', ''data'', ''train''] ''EP0'' None = Inr sc \<and>
         (\<exists>l. getitem_int (slot_tracks_to_predict sc) 2 = Inr l \<and> 5 \<in> set l) \<and>
         \<not> (\<exists>l. getitem_int (slot_tracks_to_predict sc) 2 = Inr l \<and> 7 \<in> set l) \<and>
         \<not> (\<exists>l. getitem_int (slot_tracks_to_predict sc) 1 = Inr l \<and> 9 \<in> set l)) \<and>
   map timestamp_ms (filter (\<lambda>r'. case_id r' = 2 \<and> track_id r' = 5) example_csv) =
     [100, 1000, 1100, 4000] \<and>
   map agent_type (filter (\<lambda>r'. case_id r' = 2 \<and> track_id r' = 5) example_csv) =
     [Raw ''car'', Raw ''car'', Raw ''car'', Raw ''car''] \<and>
   map timestamp_ms (filter (\<lambda>r'. case_id r' = 2 \<and> track_id r' = 7) example_csv) =
     [100, 1000, 4000] \<and>
   map agent_type (filter (\<lambda>r'. case_id r' = 2 \<and> track_id r' = 7) example_csv) =
     [Raw ''pedestrian/bicycle'', Raw ''pedestrian/bicycle'', Raw ''pedestrian/bicycle'']"
proof -
  have s: "resolve_split [''/'', ''data'', ''train''] None = Inr ''train''"
    by (simp add: resolve_split_def sublist_code)
  have rd: "read_csv_example (track_file_of joinpath_example [''/'', ''data'', ''train'']
              ''EP0'' ''train'') = Inr example_csv"
    by (simp add: track_file_of_def track_file_name_def joinpath_example_def
        read_csv_example_def)
  have ok: "\<forall>r\<in>set example_csv. deserialize_example (agent_type r) \<noteq> None"
    by (simp add: example_csv_def csv_row_def deserialize_example_def)
  have g5: "filter (\<lambda>r'. case_id r' = 2 \<and> track_id r' = 5) example_csv =
    [csv_row 2 5 100 (Raw ''car''), csv_row 2 5 1000 (Raw ''car''),
     csv_row 2 5 1100 (Raw ''car''), csv_row 2 5 4000 (Raw ''car'')]"
    by (simp add: example_csv_def csv_row_def)
  have g7: "filter (\<lambda>r'. case_id r' = 2 \<and> track_id r' = 7) example_csv =
    [csv_row 2 7 100 (Raw ''pedestrian/bicycle''), csv_row 2 7 1000 (Raw ''pedestrian/bicycle''),
     csv_row 2 7 4000 (Raw ''pedestrian/bicycle'')]"
    by (simp add: example_csv_def csv_row_def)
  have g9: "filter (\<lambda>r'. case_id r' = 1 \<and> track_id r' = 9) example_csv =
    [csv_row 1 9 100 (Raw ''pedestrian/bicycle''), csv_row 1 9 4000 (Raw ''pedestrian/bicycle'')]"
    by (simp add: example_csv_def csv_row_def)
  have r5: "csv_row 2 5 100 (Raw ''car'') \<in> set example_csv"
    and r7: "csv_row 2 7 100 (Raw ''pedestrian/bicycle'') \<in> set example_csv"
    and r9: "csv_row 1 9 100 (Raw ''pedestrian/bicycle'') \<in> set example_csv"
    by (simp_all add: example_csv_def)
  from tracks_to_predict_trainval [of "[''/'', ''data'', ''train'']" None "''train''"
      read_csv_example joinpath_example "''EP0''" example_csv deserialize_example] s rd ok
  obtain sc where c: "INTERACTIONScenario read_csv_example joinpath_example deserialize_example
           [''/'', ''data'', ''train''] ''EP0'' None = Inr sc"
    and all: "\<forall>r\<in>set example_csv.
         let g = filter (\<lambda>r'. case_id r' = case_id r \<and> track_id r' = track_id r) example_csv
         in ((\<exists>l. getitem_int (slot_tracks_to_predict sc) (case_id r) = Inr l \<and>
                  track_id r \<in> set l) \<longleftrightarrow>
               Min (timestamp_ms ` set g) = 100 \<and> Max (timestamp_ms ` set g) = 4000 \<and>
               deserialize_example (agent_type (hd g)) = Some CAR) \<and>
            (deserialize_example (agent_type (hd g)) = Some PEDESTRIAN_BICYCLE \<longrightarrow>
               \<not> (\<exists>l. getitem_int (slot_tracks_to_predict sc) (case_id r) = Inr l \<and>
                        track_id r \<in> set l))"
    by blast
  from bspec [OF all r5]
  have l5: "\<exists>l. getitem_int (slot_tracks_to_predict sc) 2 = Inr l \<and> 5 \<in> set l"
    by (simp add: csv_row_def [of 2 5 100] Let_def g5)
       (simp add: csv_row_def deserialize_example_def)
  from bspec [OF all r7]
  have l7: "\<not> (\<exists>l. getitem_int (slot_tracks_to_predict sc) 2 = Inr l \<and> 7 \<in> set l)"
    by (simp add: csv_row_def [of 2 7 100] Let_def g7)
       (simp add: csv_row_def deserialize_example_def)
  from bspec [OF all r9]
  have l9: "\<not> (\<exists>l. getitem_int (slot_tracks_to_predict sc) 1 = Inr l \<and> 9 \<in> set l)"
    by (simp add: csv_row_def [of 1 9 100] Let_def g9)
       (simp add: csv_row_def deserialize_example_def)
  have "map timestamp_ms (filter (\<lambda>r'. case_id r' = 2 \<and> track_id r' = 5) example_csv) =
     [100, 1000, 1100, 4000]"
    "map agent_type (filter (\<lambda>r'. case_id r' = 2 \<and> track_id r' = 5) example_csv) =
     [Raw ''car'', Raw ''car'', Raw ''car'', Raw ''car'']"
    unfolding g5 by (simp_all add: csv_row_def)
  moreover have "map timestamp_ms (filter (\<lambda>r'. case_id r' = 2 \<and> track_id r' = 7) example_csv) =
     [100, 1000, 4000]"
    "map agent_type (filter (\<lambda>r'. case_id r' = 2 \<and> track_id r' = 7) example_csv) =
     [Raw ''pedestrian/bicycle'', Raw ''pedestrian/bicycle'', Raw ''pedestrian/bicycle'']"
    unfolding g7 by (simp_all add: csv_row_def)
  ultimately show ?thesis
    using c l5 l7 l9 by blast
qed

subsection \<open>The test branch\<close>

lemma test_split_not_constructed:
  "INTERACTIONScenario read_csv joinpath d root loc_name (Some ''test'') \<noteq> Inr sc"
proof
  assume c: "INTERACTIONScenario read_csv joinpath d root loc_name (Some ''test'') = Inr sc"
  from INTERACTIONScenario_Inr(1) [OF c] have "slot_split sc = ''test''"
    by (simp add: resolve_split_Some)
  with INTERACTIONScenario_Inr(3) [OF c] show False by simp
qed

text \<open>
  The frame that the test branch aggregates holds what the index is meant to hold: per
  case, the track ids of the flagged rows, each once.
\<close>

lemma flagged_frame:
  "map_of (groupby_agg case_id (\<lambda>g. unique (map track_id g)) (filter (\<lambda>r. flag r = 1) df)) c =
     Some l \<Longrightarrow>
   distinct l \<and> (\<forall>t. t \<in> set l \<longleftrightarrow> (\<exists>r\<in>set df. case_id r = c \<and> track_id r = t \<and> flag r = (1::int)))"
  by (auto simp: map_of_groupby_agg set_unique distinct_unique split: if_splits)

text \<open>
  C5. On the example test file the aggregated frame lists track 5 under case 1 and track 7
  under case 2, but the index is never stored: \<open>DataFrame.to_dict()\<close> returns a dict of
  dicts, its entry \<open>"track_id"\<close> is a plain dict, and the second \<open>.to_dict()\<close> fails
  on it with an \<open>AttributeError\<close>, which ends the construction. The train/val branch
  subscripts the frame first and converts the series, which works.
\<close>

theorem test_split_construction_fails:
  "groupby_agg case_id (\<lambda>g. unique (map track_id g))
     (filter (\<lambda>r. tracks_to_predict r = 1) example_test_csv) = [(1, [5]), (2, [7])] \<and>
   flagged_index tracks_to_predict example_test_csv = Inl AttributeError \<and>
   INTERACTIONScenario read_csv_example joinpath_example deserialize_example
     [''/'', ''data'', ''test''] ''EP0'' None = Inl AttributeError"
proof -
  have "groupby_agg case_id (\<lambda>g. unique (map track_id g))
     (filter (\<lambda>r. tracks_to_predict r = 1) example_test_csv) = [(1, [5]), (2, [7])]"
    by (simp add: groupby_agg_def example_test_csv_def csv_row_def unique_def)
  moreover have "resolve_split [''/'', ''data'', ''test''] None = Inr ''test''"
    by (simp add: resolve_split_def sublist_code)
  moreover have "apply_deserialize deserialize_example example_test_csv \<noteq> Inl DecodingError"
    by (simp add: example_test_csv_def csv_row_def deserialize_example_def)
  then have "init_scenario read_csv_example joinpath_example deserialize_example
     [''/'', ''data'', ''test''] ''EP0'' ''test'' = Inl AttributeError"
    by (simp add: init_scenario_def track_file_of_def track_file_name_def joinpath_example_def
        read_csv_example_def flagged_index_fails example_test_csv_def csv_row_def
        deserialize_example_def)
  ultimately show ?thesis
    by (simp add: INTERACTIONScenario_def flagged_index_fails)
qed

subsection \<open>Cases without a track to predict\<close>

lemma selected_tracks_car_track:
  "((c, t), s) \<in> set (selected_tracks df) \<longleftrightarrow>
     s = (Some 100, Some 4000, Some (Member CAR)) \<and> car_track_100_4000 df c t"
proof -
  have "(c, t) \<in> (\<lambda>r. (case_id r, track_id r)) ` set df \<longleftrightarrow>
        filter (\<lambda>r. case_id r = c \<and> track_id r = t) df \<noteq> []"
    by (auto simp: filter_empty_conv)
  then show ?thesis
    unfolding in_selected_tracks car_track_100_4000_def Let_def by auto
qed

lemma trainval_keys:
  "map_of (groupby_agg (\<lambda>(k, s). fst k) (map (\<lambda>(k, s). snd k)) (selected_tracks df)) c \<noteq> None
     \<longleftrightarrow> (\<exists>t. car_track_100_4000 df c t)"
proof -
  have "map_of (groupby_agg (\<lambda>(k, s). fst k) (map (\<lambda>(k, s). snd k)) (selected_tracks df)) c \<noteq> None
     \<longleftrightarrow> (\<exists>t s. ((c, t), s) \<in> set (selected_tracks df))"
    by (force simp: map_of_groupby_agg image_iff)
  then show ?thesis by (simp add: selected_tracks_car_track)
qed

lemma tracks_of_members:
  assumes "\<forall>ty. d (Member ty) \<noteq> None" and "\<forall>r\<in>set frame. \<exists>ty. agent_type r = Member ty"
  shows "\<exists>ts. get_tracks_from_frame d frame = Inr ts"
proof -
  from assms have "\<forall>r\<in>set frame. d (agent_type r) \<noteq> None" by metis
  then show ?thesis by (simp add: get_tracks_from_frame_eq)
qed

lemma get_case_missing_key:
  assumes d: "\<forall>ty. d (Member ty) \<noteq> None"
    and m: "\<forall>r\<in>set (slot_frames sc). \<exists>ty. agent_type r = Member ty"
    and k: "getitem_int (slot_tracks_to_predict sc) c = Inl KeyError"
  shows "get_case d sc c = Inl KeyError"
proof (cases "c \<in> case_id ` set (slot_frames sc)")
  case False
  then show ?thesis by (rule get_case_absent)
next
  case True
  then have ne: "filter (\<lambda>r. case_id r = c) (slot_frames sc) \<noteq> []"
    by (auto simp: filter_empty_conv)
  have w: "\<exists>ts. get_tracks_from_frame d (filter P (filter (\<lambda>r. case_id r = c) (slot_frames sc))) = Inr ts"
    for P
    by (rule tracks_of_members [OF d]) (use m in auto)
  from w [of "\<lambda>r. timestamp_ms r \<le> 1000"] w [of "\<lambda>r. timestamp_ms r = 1000"]
    w [of "\<lambda>r. timestamp_ms r > 1000"]
  obtain h cu f where
    "tracks_of d (get_history sc c) = Inr h" "tracks_of d (get_current sc c) = Inr cu"
    "tracks_of d (get_futural sc c) = Inr f"
    using ne by (auto simp: tracks_of_def get_history_def get_current_def get_futural_def loc_def)
  with k show ?thesis by (simp add: get_case_def)
qed

lemma decoded_members:
  "apply_deserialize d rows = Inr df \<Longrightarrow> \<forall>r\<in>set df. \<exists>ty. agent_type r = Member ty"
  by (auto dest!: apply_deserialize_Inr)

text \<open>
  The train and val half of the matter: on every train or val file whose agent types
  decode, the index of tracks to predict is a plain dict with a key for exactly the case
  ids that have a car track from timestamp 100 to 4000, and for a case id without such a
  track \<open>get_case\<close> fails with a key error, given that \<open>deserialize\<close> accepts the
  members it has put into the frame.
\<close>

lemma missing_key_trainval:
  assumes "resolve_split root split = Inr s" and "s \<noteq> ''test''"
    and "read_csv (track_file_of joinpath root loc_name s) = Inr rows"
    and "\<forall>r\<in>set rows. deserialize (agent_type r) \<noteq> None"
  shows "\<exists>sc kv. INTERACTIONScenario read_csv joinpath deserialize root loc_name split = Inr sc \<and>
     slot_tracks_to_predict sc = PyDict kv \<and>
     (\<forall>c'. map_of kv c' \<noteq> None \<longleftrightarrow> (\<exists>t. car_track_100_4000 (slot_frames sc) c' t)) \<and>
     ((\<forall>ty. deserialize (Member ty) \<noteq> None) \<longrightarrow>
      (\<forall>c. \<not> (\<exists>t. car_track_100_4000 (slot_frames sc) c t) \<longrightarrow>
         get_case deserialize sc c = Inl KeyError))"
proof -
  from INTERACTIONScenario_trainval [where read_csv = read_csv and d = deserialize, OF assms]
  obtain sc
    where c: "INTERACTIONScenario read_csv joinpath deserialize root loc_name split = Inr sc"
      and df: "apply_deserialize deserialize rows = Inr (slot_frames sc)"
    by blast
  note init = INTERACTIONScenario_Inr(2) [OF c]
  let ?kv = "groupby_agg (\<lambda>(k, s). fst k) (map (\<lambda>(k, s). snd k))
               (selected_tracks (slot_frames sc))"
  have kv: "slot_tracks_to_predict sc = PyDict ?kv"
    by (rule init_scenario_Inr(7) [OF init])
  have keys: "\<forall>c'. map_of ?kv c' \<noteq> None \<longleftrightarrow> (\<exists>t. car_track_100_4000 (slot_frames sc) c' t)"
    using trainval_keys by blast
  have m: "\<forall>r\<in>set (slot_frames sc). \<exists>ty. agent_type r = Member ty"
    by (rule decoded_members [OF df])
  have "get_case deserialize sc c = Inl KeyError"
    if d: "\<forall>ty. deserialize (Member ty) \<noteq> None"
      and no: "\<not> (\<exists>t. car_track_100_4000 (slot_frames sc) c t)" for c
  proof -
    from no keys have "map_of ?kv c = None" by blast
    then have "getitem_int (slot_tracks_to_predict sc) c = Inl KeyError"
      by (simp add: kv)
    with d m show ?thesis by (rule get_case_missing_key)
  qed
  with c kv keys show ?thesis by blast
qed

lemma example_case_without_track:
  "get_case deserialize_example example_scenario 1 = Inl KeyError"
  by (simp add: get_case_def tracks_of_def get_history_def get_current_def get_futural_def
      loc_def example_scenario_def csv_row_def get_tracks_from_frame_def
      deserialize_example_def)

text \<open>
  C10. On the example test file only track 5 of case 1 is an interesting agent, so the
  index of interesting agents is meant to be the plain dict with the one key 1, and
  \<open>get_case(2)\<close> to fail with a key error. Neither comes about: the second
  \<open>.to_dict()\<close> of the test branch fails on the plain dict with an
  \<open>AttributeError\<close>, for the index of tracks to predict already, and construction ends
  there. There is no index and no scenario to ask for a case.
\<close>

theorem test_split_no_index:
  "map case_id example_test_csv = [1, 1, 1, 2] \<and>
   map interesting_agent example_test_csv = [1, 1, 0, 0] \<and>
   groupby_agg case_id (\<lambda>g. unique (map track_id g))
     (filter (\<lambda>r. interesting_agent r = 1) example_test_csv) = [(1, [5])] \<and>
   flagged_index interesting_agent example_test_csv = Inl AttributeError \<and>
   INTERACTIONScenario read_csv_example joinpath_example deserialize_example
     [''/'', ''data'', ''test''] ''EP0'' (Some ''test'') = Inl AttributeError"
proof -
  have "apply_deserialize deserialize_example example_test_csv \<noteq> Inl DecodingError"
    by (simp add: example_test_csv_def csv_row_def deserialize_example_def)
  then have "init_scenario read_csv_example joinpath_example deserialize_example
     [''/'', ''data'', ''test''] ''EP0'' ''test'' = Inl AttributeError"
    by (simp add: init_scenario_def track_file_of_def track_file_name_def joinpath_example_def
        read_csv_example_def flagged_index_fails example_test_csv_def csv_row_def
        deserialize_example_def)
  moreover have "groupby_agg case_id (\<lambda>g. unique (map track_id g))
     (filter (\<lambda>r. interesting_agent r = 1) example_test_csv) = [(1, [5])]"
    by (simp add: groupby_agg_def example_test_csv_def csv_row_def unique_def)
  ultimately show ?thesis
    by (simp add: INTERACTIONScenario_def resolve_split_Some flagged_index_fails)
       (simp add: example_test_csv_def csv_row_def)
qed

end
